theory Spec2Isabelle
  imports Main "HOL-Library.Sublist" "HOL-Library.Word" "HOL-Library.Char_ord"
begin

section \<open>JavaScript values\<close>

text \<open>
  Both routers (\<^verbatim>\<open>src/app.js\<close> and \<^verbatim>\<open>src/unnamed/part_000\<close>) handle values that
  \<^verbatim>\<open>JSON.parse\<close> or \<^verbatim>\<open>express.json()\<close> produced: trees without sharing and without
  cycles. An object is the list of its own enumerable properties in the order
  \<^verbatim>\<open>for ... in\<close> visits them; \<^verbatim>\<open>JSON.parse\<close> never yields the same key twice. A
  \<open>char\<close> stands for one code unit of a JavaScript string. Numbers are only tested
  for being zero and printed, so the integers stand for them. \<^verbatim>\<open>undefined\<close> is
  \<open>None\<close> of \<open>json option\<close>.
\<close>

datatype json =
    JNull
  | JBool bool
  | JNum int
  | JStr string
  | JArr "json list"
  | JObj "(string \<times> json) list"

type_synonym byte = "8 word"

text \<open>Truthiness, as \<^verbatim>\<open>!x\<close>, \<^verbatim>\<open>x && y\<close> and \<^verbatim>\<open>x || y\<close> test it.\<close>

fun truthy :: "json \<Rightarrow> bool" where
  "truthy JNull = False"
| "truthy (JBool b) = b"
| "truthy (JNum n) = (n \<noteq> 0)"
| "truthy (JStr s) = (s \<noteq> [])"
| "truthy (JArr xs) = True"
| "truthy (JObj kvs) = True"

fun truthy_opt :: "json option \<Rightarrow> bool" where
  "truthy_opt None = False"
| "truthy_opt (Some v) = truthy v"

text \<open>\<^verbatim>\<open>typeof v === 'object'\<close>: true of \<^verbatim>\<open>null\<close>, arrays and objects.\<close>

fun typeof_object :: "json \<Rightarrow> bool" where
  "typeof_object JNull = True"
| "typeof_object (JArr xs) = True"
| "typeof_object (JObj kvs) = True"
| "typeof_object v = False"

section \<open>Outbound requests and console output\<close>

text \<open>
  What \<^verbatim>\<open>await fetch(url)\<close> followed by reading the body gives: the promise rejects
  with an error message, or a response arrives with its status, its
  \<^verbatim>\<open>content-type\<close> header (if any) and its body. \<^verbatim>\<open>response.ok\<close> is node-fetch's
  \<^verbatim>\<open>status >= 200 && status < 300\<close>.
\<close>

datatype 'b fetched = Rejected string | Responded nat "string option" 'b

definition ok :: "nat \<Rightarrow> bool" where
  "ok status \<longleftrightarrow> 200 \<le> status \<and> status < 300"

text \<open>
  What a handler does besides answering: the requests it sends (method and URL) and
  the lines it prints, with the arguments of \<^verbatim>\<open>console.warn\<close> and
  \<^verbatim>\<open>console.error\<close> (a string, or a value that is printed).
\<close>

datatype arg = S string | V json

datatype effect =
    Outbound string string
  | ConsoleWarn "arg list"
  | ConsoleError "arg list"

text \<open>Decimal digits of a number, as a template literal prints it.\<close>

fun show_nat :: "nat \<Rightarrow> string" where
  "show_nat n =
     (if n < 10 then [''0123456789'' ! n] else show_nat (n div 10) @ [''0123456789'' ! (n mod 10)])"

declare show_nat.simps [simp del]

definition show_int :: "int \<Rightarrow> string" where
  "show_int i = (if i < 0 then CHR ''-'' # show_nat (nat (- i)) else show_nat (nat i))"

section \<open>The payload media resolver\<close>

definition is_http :: "string \<Rightarrow> bool" where
  "is_http s \<longleftrightarrow> prefix ''http://'' s \<or> prefix ''https://'' s"

text \<open>\<^verbatim>\<open>response.headers.get('content-type') || 'image/jpeg'\<close>\<close>

fun content_type_or_default :: "string option \<Rightarrow> string" where
  "content_type_or_default None = ''image/jpeg''"
| "content_type_or_default (Some t) = (if t = [] then ''image/jpeg'' else t)"

definition data_uri :: "(byte list \<Rightarrow> string) \<Rightarrow> string option \<Rightarrow> byte list \<Rightarrow> string" where
  "data_uri base64 ct bytes = ''data:'' @ content_type_or_default ct @ '';base64,'' @ base64 bytes"

text \<open>
  The \<^verbatim>\<open>try\<close> block of lines 30 to 41 of part_000 (38 to 49 of app.js, the same
  text) for the URL \<open>u\<close>: the new value of the property
  (if it is assigned) and what was requested and printed. \<open>base64\<close> is
  \<^verbatim>\<open>Buffer.toString('base64')\<close> and \<open>image_host\<close> is what each image URL answers
  during the walk.
\<close>

fun convert_photo ::
  "(byte list \<Rightarrow> string) \<Rightarrow> (string \<Rightarrow> byte list fetched) \<Rightarrow> string \<Rightarrow> string option \<times> effect list" where
  "convert_photo base64 image_host u =
     (case image_host u of
        Responded status ct bytes \<Rightarrow>
          (if ok status then (Some (data_uri base64 ct bytes), [Outbound ''GET'' u])
           else (None, [Outbound ''GET'' u,
                   ConsoleWarn [S (''Failed to fetch image '' @ u @ '': Status '' @ show_nat status)]]))
      | Rejected msg \<Rightarrow>
          (None, [Outbound ''GET'' u,
             ConsoleError [S (''Error converting image URL '' @ u @ '' to Base64:''), S msg]]))"

text \<open>The test of line 29 (line 37 of app.js) and the \<^verbatim>\<open>try\<close> block it guards.\<close>

fun fetch_if_photo ::
  "(byte list \<Rightarrow> string) \<Rightarrow> (string \<Rightarrow> byte list fetched) \<Rightarrow> string \<Rightarrow> json \<Rightarrow>
     string option \<times> effect list" where
  "fetch_if_photo base64 image_host k (JStr u) =
     (if k = ''PhotoURL'' \<and> is_http u then convert_photo base64 image_host u else (None, []))"
| "fetch_if_photo base64 image_host k v = (None, [])"

text \<open>
  \<^verbatim>\<open>processImageUrlsToBase64\<close> mutates its argument in place and returns nothing;
  the model returns the argument as the walk leaves it, with the effects in order.
  A property that was just assigned holds a string, so the test of line 44 fails
  for it; otherwise the property still holds the value it had.
\<close>

fun processImageUrlsToBase64 ::
  "(byte list \<Rightarrow> string) \<Rightarrow> (string \<Rightarrow> byte list fetched) \<Rightarrow> json \<Rightarrow> json \<times> effect list" where
  "processImageUrlsToBase64 base64 image_host (JArr xs) =
     (let rs = map (processImageUrlsToBase64 base64 image_host) xs
      in (JArr (map fst rs), concat (map snd rs)))"
| "processImageUrlsToBase64 base64 image_host (JObj kvs) =
     (let rs = map (\<lambda>(k, v).
                 (case fetch_if_photo base64 image_host k v of
                    (Some s, es) \<Rightarrow> ((k, JStr s), es)
                  | (None, es) \<Rightarrow>
                      (if typeof_object v
                       then (let (v', es') = processImageUrlsToBase64 base64 image_host v
                             in ((k, v'), es @ es'))
                       else ((k, v), es)))) kvs
      in (JObj (map fst rs), concat (map snd rs)))"
| "processImageUrlsToBase64 base64 image_host v = (v, [])"

section \<open>The platform, the configuration and the world\<close>

text \<open>
  What the handlers take from Node and its libraries: \<^verbatim>\<open>JSON.parse\<close> (\<open>None\<close>
  when it throws), \<^verbatim>\<open>Buffer.toString('base64')\<close>, the message of the
  \<^verbatim>\<open>TypeError\<close> for reading the named property of \<^verbatim>\<open>null\<close>, and the message of
  the error with which \<^verbatim>\<open>response.json()\<close> rejects on a body that is not JSON.
\<close>

record platform =
  json_parse :: "string \<Rightarrow> json option"
  base64 :: "byte list \<Rightarrow> string"
  null_read :: "string \<Rightarrow> string"
  json_error :: "string \<Rightarrow> string"

text \<open>
  The environment variables of lines 9 to 14 of app.js. The process exits when
  \<^verbatim>\<open>GAS_URL\<close> is not set, so a running router has one.
\<close>

record config =
  GAS_URL :: string
  GITHUB_API_TOKEN :: "string option"
  GITHUB_OWNER :: "string option"
  GITHUB_REPO :: "string option"

text \<open>\<^verbatim>\<open>!X\<close> for an environment variable: unset or empty.\<close>

fun unset :: "string option \<Rightarrow> bool" where
  "unset None = True"
| "unset (Some s) = (s = [])"

fun env_text :: "string option \<Rightarrow> string" where
  "env_text None = ''undefined''"
| "env_text (Some s) = s"

text \<open>
  What \<^verbatim>\<open>res.sendFile\<close> reports: the file went out, or the callback got an error
  (its message, its \<^verbatim>\<open>status\<close> if it has one, and whether the headers had been
  sent by then).
\<close>

datatype sent = Delivered string | Failed string "nat option" bool

text \<open>
  What is outside the process during one request: the answer of the script host
  to a POST with a given body, of the asset host to a PUT of a body to a URL, of
  each image URL to a GET (the same answer each time the URL is fetched during
  the request), the outcome of sending each local file, and the clock
  (\<^verbatim>\<open>new Date().getTime()\<close>).
\<close>

record world =
  gas :: "json \<Rightarrow> string fetched"
  github :: "string \<Rightarrow> json \<Rightarrow> string fetched"
  image_host :: "string \<Rightarrow> byte list fetched"
  files :: "string \<Rightarrow> sent"
  now :: int

text \<open>
  The answer of a handler: \<^verbatim>\<open>res.status(n).json(v)\<close>, \<^verbatim>\<open>res.status(n).send(text)\<close>,
  a file that went out, a response whose headers were sent before the file
  failed, or none at all (the handler threw outside its \<^verbatim>\<open>try\<close>).
\<close>

datatype response = Json nat json | Text nat string | File string | Partial | NoResponse

section \<open>Reading and writing properties\<close>

text \<open>
  \<^verbatim>\<open>v.k\<close> for a value that is not \<^verbatim>\<open>null\<close> and a name that no prototype defines
  (\<^verbatim>\<open>success\<close>, \<^verbatim>\<open>data\<close>, \<^verbatim>\<open>mobile\<close>, ...): the own property of an object,
  \<^verbatim>\<open>undefined\<close> otherwise.
\<close>

fun read_prop :: "json \<Rightarrow> string \<Rightarrow> json option" where
  "read_prop (JObj kvs) k = map_of kvs k"
| "read_prop v k = None"

text \<open>
  \<^verbatim>\<open>v.k\<close> for any value: reading a property of \<^verbatim>\<open>null\<close> throws a \<^verbatim>\<open>TypeError\<close>
  (\<open>Inl\<close> with its message).
\<close>

fun access :: "platform \<Rightarrow> json \<Rightarrow> string \<Rightarrow> string + json option" where
  "access P JNull k = Inl (null_read P k)"
| "access P v k = Inr (read_prop v k)"

text \<open>\<^verbatim>\<open>o[k] = v\<close> on the properties of an object: in place, or added last.\<close>

fun assign :: "(string \<times> json) list \<Rightarrow> string \<Rightarrow> json \<Rightarrow> (string \<times> json) list" where
  "assign [] k v = [(k, v)]"
| "assign ((k', v') # rest) k v = (if k' = k then (k, v) # rest else (k', v') # assign rest k v)"

text \<open>
  \<^verbatim>\<open>{ action, ...payload }\<close>: the own enumerable properties of the payload are
  assigned after \<^verbatim>\<open>action\<close>. \<^verbatim>\<open>express.json()\<close> hands over objects and arrays only.
  (The engine lists array-index keys first; the model keeps the order of
  assignment.)
\<close>

fun own_properties :: "json \<Rightarrow> (string \<times> json) list" where
  "own_properties (JObj kvs) = kvs"
| "own_properties (JArr xs) = zip (map show_nat [0..<length xs]) xs"
| "own_properties v = []"

definition spread_action :: "string \<Rightarrow> json \<Rightarrow> json" where
  "spread_action action payload =
     JObj (foldl (\<lambda>acc (k, v). assign acc k v) [(''action'', JStr action)] (own_properties payload))"

text \<open>\<^verbatim>\<open>req.body || {}\<close>\<close>

fun payload_or_empty :: "json option \<Rightarrow> json" where
  "payload_or_empty None = JObj []"
| "payload_or_empty (Some b) = (if truthy b then b else JObj [])"

text \<open>
  The result after the resolver has worked on the value \<^verbatim>\<open>result.data\<close> refers
  to: the same properties, \<^verbatim>\<open>data\<close> holding what the walk left.
\<close>

fun with_data :: "json \<Rightarrow> json \<Rightarrow> json" where
  "with_data (JObj kvs) d = JObj (assign kvs ''data'' d)"
| "with_data v d = v"

text \<open>The string a template literal makes of a value.\<close>

fun join_comma :: "string list \<Rightarrow> string" where
  "join_comma [] = []"
| "join_comma [s] = s"
| "join_comma (s # t # rest) = s @ '','' @ join_comma (t # rest)"

fun js_string :: "json \<Rightarrow> string" where
  "js_string JNull = ''null''"
| "js_string (JBool b) = (if b then ''true'' else ''false'')"
| "js_string (JNum n) = show_int n"
| "js_string (JStr s) = s"
| "js_string (JArr xs) = join_comma (map (\<lambda>x. if x = JNull then [] else js_string x) xs)"
| "js_string (JObj kvs) = ''[object Object]''"

text \<open>The two envelopes the handlers build for a failure.\<close>

definition failure :: "string \<Rightarrow> json" where
  "failure msg = JObj [(''success'', JBool False), (''error'', JStr msg)]"

definition failure_details :: "string \<Rightarrow> string \<Rightarrow> json" where
  "failure_details msg details =
     JObj [(''success'', JBool False), (''error'', JStr msg), (''details'', JStr details)]"

text \<open>\<^verbatim>\<open>response.status || 502\<close>\<close>

definition status_or_502 :: "nat \<Rightarrow> nat" where
  "status_or_502 status = (if status = 0 then 502 else status)"

definition dquote :: string where
  "dquote = [CHR 0x22]"

section \<open>The handlers\<close>

text \<open>
  A request as Express routes it by method and path, with \<^verbatim>\<open>req.body\<close> as
  \<^verbatim>\<open>express.json()\<close> left it (\<open>None\<close> for \<^verbatim>\<open>undefined\<close>) and, for
  \<^verbatim>\<open>/api/:action\<close>, the path parameter.
\<close>

datatype request =
    GetRoot
  | GetTools
  | GetGenerator
  | PostLogin "json option"
  | PostUploadImage "json option"
  | PostApi string "json option"
  | GetHealth
  | Other

text \<open>The three static routes (lines 60 to 94 of app.js, 52 to 86 of part_000).\<close>

definition get_root :: "world \<Rightarrow> response \<times> effect list" where
  "get_root W =
     (case files W ''index.html'' of
        Delivered content \<Rightarrow> (File content, [])
      | Failed msg status headers_sent \<Rightarrow>
          (if headers_sent then Partial else Text 500 ''Error loading application shell.'',
           [ConsoleError [S ''Error sending index.html:'', S msg]]))"

definition err_status_or_500 :: "nat option \<Rightarrow> nat" where
  "err_status_or_500 status = (case status of None \<Rightarrow> 500 | Some n \<Rightarrow> if n = 0 then 500 else n)"

definition get_tools :: "world \<Rightarrow> response \<times> effect list" where
  "get_tools W =
     (case files W ''tools.json'' of
        Delivered content \<Rightarrow> (File content, [])
      | Failed msg status headers_sent \<Rightarrow>
          (if headers_sent then Partial
           else Text (err_status_or_500 status) ''Error loading tools configuration.'',
           [ConsoleError [S ''Error sending tools.json:'', S msg]]))"

definition get_generator :: "world \<Rightarrow> response \<times> effect list" where
  "get_generator W =
     (case files W ''generator.json'' of
        Delivered content \<Rightarrow> (File content, [])
      | Failed msg status headers_sent \<Rightarrow>
          (if headers_sent then Partial
           else Text (err_status_or_500 status) ''Error loading generator configuration.'',
           [ConsoleError [S ''Error sending generator.json:'', S msg]]))"

definition health :: "response \<times> effect list" where
  "health = (Text 200 ''OK'', [])"

definition not_found :: "response \<times> effect list" where
  "not_found = (Text 404 ''Resource not found on proxy.'', [])"

text \<open>
  \<^verbatim>\<open>app.post('/login')\<close>: lines 97 to 132 of app.js and 89 to 124 of part_000,
  the same text. The destructuring of line 98 throws on a body that is
  \<^verbatim>\<open>undefined\<close> or \<^verbatim>\<open>null\<close>, before the \<^verbatim>\<open>try\<close>.
\<close>

definition login :: "platform \<Rightarrow> config \<Rightarrow> world \<Rightarrow> json option \<Rightarrow> response \<times> effect list" where
  "login P C W body =
     (case body of
        None \<Rightarrow> (NoResponse, [])
      | Some b \<Rightarrow>
          if b = JNull then (NoResponse, [])
          else
            (case (read_prop b ''mobile'', read_prop b ''password'') of
               (Some mobile, Some password) \<Rightarrow>
                 if \<not> truthy mobile \<or> \<not> truthy password
                 then (Json 400 (failure ''Mobile and password required''), [])
                 else
                   (let call = Outbound ''POST'' (GAS_URL C) in
                    case gas W (JObj [(''action'', JStr ''login''), (''mobile'', mobile),
                                      (''password'', password)]) of
                      Rejected msg \<Rightarrow>
                        (Json 500 (failure_details ''Proxy server error during login.'' msg),
                         [call, ConsoleError [S ''Login proxy error:'', S msg]])
                    | Responded status ct text \<Rightarrow>
                        (case json_parse P text of
                           None \<Rightarrow>
                             (Json 500 (failure (''GAS returned non-JSON response. Status: '' @
                                                  show_nat status)),
                              [call, ConsoleError [S ''Failed to parse GAS response for login:'',
                                                   S (take 500 text)]])
                         | Some result \<Rightarrow>
                             if \<not> ok status
                             then (Json (status_or_502 status)
                                     (if truthy result then result
                                      else failure (''Upstream GAS error: '' @ show_nat status)),
                                   [call, ConsoleError
                                      [S (''GAS login request failed with HTTP Status: '' @
                                          show_nat status), V result]])
                             else (Json 200 result, [call])))
             | _ \<Rightarrow> (Json 400 (failure ''Mobile and password required''), [])))"

text \<open>
  \<^verbatim>\<open>app.post('/api/:action')\<close> of part_000 (lines 126 to 167). The condition of
  line 157 reads \<^verbatim>\<open>result.success\<close>, and \<^verbatim>\<open>result.data\<close> only when that is truthy;
  a \<^verbatim>\<open>TypeError\<close> of these reads is caught by line 163.
\<close>

definition api_action_part ::
  "platform \<Rightarrow> config \<Rightarrow> world \<Rightarrow> string \<Rightarrow> json option \<Rightarrow> response \<times> effect list" where
  "api_action_part P C W action body =
     (let payload = payload_or_empty body;
          call = Outbound ''POST'' (GAS_URL C);
          caught = (\<lambda>msg.
            (Json 500 (failure_details (''Proxy server error during action: '' @ action @ ''.'') msg),
             [call, ConsoleError [S (''API proxy error for action '' @ dquote @ action @ dquote @ '':''),
                                  S msg]]))
      in
      if action = [] then (Json 400 (failure ''Action parameter is required''), [])
      else
        (case gas W (spread_action action payload) of
           Rejected msg \<Rightarrow> caught msg
         | Responded status ct text \<Rightarrow>
             (case json_parse P text of
                None \<Rightarrow>
                  (Json 500 (failure (''GAS returned non-JSON response for action '' @ action @
                                       ''. Status: '' @ show_nat status)),
                   [call, ConsoleError
                      [S (''Failed to parse GAS response for action '' @ dquote @ action @ dquote @
                          '':''), S (take 500 text)]])
              | Some result \<Rightarrow>
                  if \<not> ok status
                  then (Json (status_or_502 status)
                          (if truthy result then result
                           else failure (''Upstream GAS error for '' @ action @ '': '' @
                                         show_nat status)),
                        [call, ConsoleError
                           [S (''GAS API request failed for action '' @ dquote @ action @ dquote @
                               '' with HTTP Status: '' @ show_nat status), V result]])
                  else
                    (case access P result ''success'' of
                       Inl msg \<Rightarrow> caught msg
                     | Inr success \<Rightarrow>
                         if \<not> truthy_opt success then (Json 200 result, [call])
                         else
                           (case access P result ''data'' of
                              Inl msg \<Rightarrow> caught msg
                            | Inr None \<Rightarrow> (Json 200 result, [call])
                            | Inr (Some d) \<Rightarrow>
                                if truthy d
                                then (let (d', es) = processImageUrlsToBase64 (base64 P) (image_host W) d
                                      in (Json 200 (with_data result d'), call # es))
                                else (Json 200 result, [call]))))))"

text \<open>
  \<^verbatim>\<open>app.post('/api/:action')\<close> of app.js (lines 176 to 217): the condition of line
  207 is still evaluated, the call in its body is commented out.
\<close>

definition api_action_app ::
  "platform \<Rightarrow> config \<Rightarrow> world \<Rightarrow> string \<Rightarrow> json option \<Rightarrow> response \<times> effect list" where
  "api_action_app P C W action body =
     (let payload = payload_or_empty body;
          call = Outbound ''POST'' (GAS_URL C);
          caught = (\<lambda>msg.
            (Json 500 (failure_details (''Proxy server error during action: '' @ action @ ''.'') msg),
             [call, ConsoleError [S (''API proxy error for action '' @ dquote @ action @ dquote @ '':''),
                                  S msg]]))
      in
      if action = [] then (Json 400 (failure ''Action parameter is required''), [])
      else
        (case gas W (spread_action action payload) of
           Rejected msg \<Rightarrow> caught msg
         | Responded status ct text \<Rightarrow>
             (case json_parse P text of
                None \<Rightarrow>
                  (Json 500 (failure (''GAS returned non-JSON response for action '' @ action @
                                       ''. Status: '' @ show_nat status)),
                   [call, ConsoleError
                      [S (''Failed to parse GAS response for action '' @ dquote @ action @ dquote @
                          '':''), S (take 500 text)]])
              | Some result \<Rightarrow>
                  if \<not> ok status
                  then (Json (status_or_502 status)
                          (if truthy result then result
                           else failure (''Upstream GAS error for '' @ action @ '': '' @
                                         show_nat status)),
                        [call, ConsoleError
                           [S (''GAS API request failed for action '' @ dquote @ action @ dquote @
                               '' with HTTP Status: '' @ show_nat status), V result]])
                  else
                    (case access P result ''success'' of
                       Inl msg \<Rightarrow> caught msg
                     | Inr success \<Rightarrow>
                         if \<not> truthy_opt success then (Json 200 result, [call])
                         else
                           (case access P result ''data'' of
                              Inl msg \<Rightarrow> caught msg
                            | Inr None \<Rightarrow> (Json 200 result, [call])
                            | Inr (Some d) \<Rightarrow>
                                if truthy d then (Json 200 result, [call])
                                else (Json 200 result, [call]))))))"

text \<open>
  \<^verbatim>\<open>app.post('/upload-image')\<close> of app.js (lines 134 to 174). Lines 139 to 146 are
  outside the \<^verbatim>\<open>try\<close>: the destructuring throws on a body that is \<^verbatim>\<open>undefined\<close> or
  \<^verbatim>\<open>null\<close>, and \<^verbatim>\<open>fileName.replace\<close> on a file name that is not a string.
\<close>

definition kept :: "char \<Rightarrow> bool" where
  "kept c \<longleftrightarrow>
     (CHR ''a'' \<le> c \<and> c \<le> CHR ''z'') \<or> (CHR ''A'' \<le> c \<and> c \<le> CHR ''Z'') \<or>
     (CHR ''0'' \<le> c \<and> c \<le> CHR ''9'') \<or> c = CHR ''.'' \<or> c = CHR ''-''"

definition sanitize :: "string \<Rightarrow> string" where
  "sanitize name = map (\<lambda>c. if kept c then c else CHR ''_'') name"

definition sanitizedFileName :: "int \<Rightarrow> string \<Rightarrow> string" where
  "sanitizedFileName time name = show_int time @ ''-'' @ sanitize name"

definition filePath :: "int \<Rightarrow> string \<Rightarrow> string" where
  "filePath time name = ''images/'' @ sanitizedFileName time name"

definition GITHUB_API_URL :: "config \<Rightarrow> int \<Rightarrow> string \<Rightarrow> string" where
  "GITHUB_API_URL C time name =
     ''https://api.github.com/repos/'' @ env_text (GITHUB_OWNER C) @ ''/'' @
     env_text (GITHUB_REPO C) @ ''/contents/'' @ filePath time name"

text \<open>\<^verbatim>\<open>content?.download_url\<close> for what \<^verbatim>\<open>result.content\<close> gave.\<close>

fun download_url :: "json option \<Rightarrow> json option" where
  "download_url None = None"
| "download_url (Some JNull) = None"
| "download_url (Some c) = read_prop c ''download_url''"

text \<open>
  The \<^verbatim>\<open>else\<close> branch of lines 166 to 169; a \<^verbatim>\<open>TypeError\<close> of \<^verbatim>\<open>result.message\<close>
  is caught by line 170.
\<close>

definition upload_failed :: "platform \<Rightarrow> effect \<Rightarrow> nat \<Rightarrow> json \<Rightarrow> response \<times> effect list" where
  "upload_failed P call status result =
     (case access P result ''message'' of
        Inl msg \<Rightarrow>
          (Json 500 (failure_details ''Server error during image upload.'' msg),
           [call, ConsoleError [S ''Proxy error during image upload:'', S msg]])
      | Inr message \<Rightarrow>
          (Json (status_or_502 status)
             (failure (''GitHub API Error: '' @
                       (case message of
                          Some m \<Rightarrow> if truthy m then js_string m else ''Failed to upload file.''
                        | None \<Rightarrow> ''Failed to upload file.''))),
           [call, ConsoleError
              [S ''GitHub API Error:'',
               (case message of
                  Some m \<Rightarrow> if truthy m then V m else S ''Unknown error''
                | None \<Rightarrow> S ''Unknown error'')]]))"

definition upload_image ::
  "platform \<Rightarrow> config \<Rightarrow> world \<Rightarrow> json option \<Rightarrow> response \<times> effect list" where
  "upload_image P C W body =
     (if unset (GITHUB_API_TOKEN C) \<or> unset (GITHUB_OWNER C) \<or> unset (GITHUB_REPO C)
      then (Json 500 (failure ''GitHub integration is not configured on the server.''), [])
      else
        (case body of
           None \<Rightarrow> (NoResponse, [])
         | Some b \<Rightarrow>
             if b = JNull then (NoResponse, [])
             else
               (case (read_prop b ''image'', read_prop b ''fileName'') of
                  (Some img, Some fileName) \<Rightarrow>
                    if \<not> truthy img \<or> \<not> truthy fileName
                    then (Json 400 (failure ''Image data and file name are required.''), [])
                    else
                      (case fileName of
                         JStr name \<Rightarrow>
                           (let url = GITHUB_API_URL C (now W) name;
                                call = Outbound ''PUT'' url;
                                caught = (\<lambda>msg.
                                  (Json 500 (failure_details ''Server error during image upload.'' msg),
                                   [call, ConsoleError [S ''Proxy error during image upload:'', S msg]]))
                            in
                            case github W url
                                   (JObj [(''message'', JStr (''Upload image: '' @
                                                              sanitizedFileName (now W) name)),
                                          (''content'', img)]) of
                              Rejected msg \<Rightarrow> caught msg
                            | Responded status ct text \<Rightarrow>
                                (case json_parse P text of
                                   None \<Rightarrow> caught (json_error P text)
                                 | Some result \<Rightarrow>
                                     if ok status
                                     then
                                       (case access P result ''content'' of
                                          Inl msg \<Rightarrow> caught msg
                                        | Inr content \<Rightarrow>
                                            (case download_url content of
                                               Some link \<Rightarrow>
                                                 if truthy link
                                                 then (Json 200 (JObj [(''success'', JBool True),
                                                                       (''url'', link)]), [call])
                                                 else upload_failed P call status result
                                             | None \<Rightarrow> upload_failed P call status result))
                                     else upload_failed P call status result))
                       | _ \<Rightarrow> (NoResponse, []))
                | _ \<Rightarrow> (Json 400 (failure ''Image data and file name are required.''), []))))"

section \<open>The two routers\<close>

text \<open>
  app.js registers the upload route; part_000 does not, so its fallback of lines
  173 to 177 answers a POST to \<^verbatim>\<open>/upload-image\<close>.
\<close>

definition router_app_js ::
  "platform \<Rightarrow> config \<Rightarrow> world \<Rightarrow> request \<Rightarrow> response \<times> effect list" where
  "router_app_js P C W req =
     (case req of
        GetRoot \<Rightarrow> get_root W
      | GetTools \<Rightarrow> get_tools W
      | GetGenerator \<Rightarrow> get_generator W
      | PostLogin body \<Rightarrow> login P C W body
      | PostUploadImage body \<Rightarrow> upload_image P C W body
      | PostApi action body \<Rightarrow> api_action_app P C W action body
      | GetHealth \<Rightarrow> health
      | Other \<Rightarrow> not_found)"

definition router_part_000 ::
  "platform \<Rightarrow> config \<Rightarrow> world \<Rightarrow> request \<Rightarrow> response \<times> effect list" where
  "router_part_000 P C W req =
     (case req of
        GetRoot \<Rightarrow> get_root W
      | GetTools \<Rightarrow> get_tools W
      | GetGenerator \<Rightarrow> get_generator W
      | PostLogin body \<Rightarrow> login P C W body
      | PostUploadImage body \<Rightarrow> not_found
      | PostApi action body \<Rightarrow> api_action_part P C W action body
      | GetHealth \<Rightarrow> health
      | Other \<Rightarrow> not_found)"

section \<open>Vocabulary of the properties\<close>

text \<open>
  A place in a payload is the list of child positions leading to it: the position
  of an element in an array, of a property in an object.
\<close>

fun child :: "json \<Rightarrow> nat \<Rightarrow> json option" where
  "child (JArr xs) i = (if i < length xs then Some (xs ! i) else None)"
| "child (JObj kvs) i = (if i < length kvs then Some (snd (kvs ! i)) else None)"
| "child v i = None"

fun at_path :: "json \<Rightarrow> nat list \<Rightarrow> json option" where
  "at_path v [] = Some v"
| "at_path v (i # js) = (case child v i of None \<Rightarrow> None | Some c \<Rightarrow> at_path c js)"

text \<open>A property the resolver may replace: named \<^verbatim>\<open>PhotoURL\<close>, holding an absolute URL.\<close>

fun candidate :: "string \<Rightarrow> json \<Rightarrow> bool" where
  "candidate k (JStr s) = (k = ''PhotoURL'' \<and> is_http s)"
| "candidate k v = False"

fun is_string :: "json \<Rightarrow> bool" where
  "is_string (JStr s) = True"
| "is_string v = False"

text \<open>The key occurs somewhere in the payload.\<close>

fun has_key :: "string \<Rightarrow> json \<Rightarrow> bool" where
  "has_key k (JArr xs) = list_ex (has_key k) xs"
| "has_key k (JObj kvs) = list_ex (\<lambda>(k', v). k' = k \<or> has_key k v) kvs"
| "has_key k v = False"

text \<open>
  The second value is the first one but for the values of candidate properties,
  which may hold any string: same constructors, same lengths, same keys in the
  same order, same scalars.
\<close>

fun unchanged_but_photos :: "json \<Rightarrow> json \<Rightarrow> bool"
  and unchanged_items :: "json list \<Rightarrow> json list \<Rightarrow> bool"
  and unchanged_entries :: "(string \<times> json) list \<Rightarrow> (string \<times> json) list \<Rightarrow> bool" where
  "unchanged_but_photos (JArr xs) w = (case w of JArr ys \<Rightarrow> unchanged_items xs ys | _ \<Rightarrow> False)"
| "unchanged_but_photos (JObj kvs) w = (case w of JObj kvs' \<Rightarrow> unchanged_entries kvs kvs' | _ \<Rightarrow> False)"
| "unchanged_but_photos v w = (w = v)"
| "unchanged_items [] ys = (ys = [])"
| "unchanged_items (x # xs) ys =
     (case ys of [] \<Rightarrow> False | y # ys' \<Rightarrow> unchanged_but_photos x y \<and> unchanged_items xs ys')"
| "unchanged_entries [] es = (es = [])"
| "unchanged_entries ((k, v) # kvs) es =
     (case es of [] \<Rightarrow> False
      | (k', v') # es' \<Rightarrow>
          k' = k \<and> (if candidate k v then is_string v' else unchanged_but_photos v v') \<and>
          unchanged_entries kvs es')"

text \<open>A fetch that gave no image: the promise rejected, or the status is not 2xx.\<close>

fun fetch_failed :: "'b fetched \<Rightarrow> bool" where
  "fetch_failed (Rejected msg) = True"
| "fetch_failed (Responded status ct body) = (\<not> ok status)"

text \<open>An envelope that says \<^verbatim>\<open>success: false\<close> has an \<^verbatim>\<open>error\<close>.\<close>

definition paired :: "json \<Rightarrow> bool" where
  "paired v \<longleftrightarrow> read_prop v ''success'' \<noteq> Some (JBool False) \<or> read_prop v ''error'' \<noteq> None"

text \<open>
  The body a router posts to the script host for a request, when it posts one
  (lines 109 and 185 of app.js, 101 and 135 of part_000, behind the checks of lines
  99 and 180, 91 and 130).
\<close>

fun posted_to_gas :: "request \<Rightarrow> json option" where
  "posted_to_gas (PostLogin (Some b)) =
     (case (read_prop b ''mobile'', read_prop b ''password'') of
        (Some mobile, Some password) \<Rightarrow>
          if truthy mobile \<and> truthy password
          then Some (JObj [(''action'', JStr ''login''), (''mobile'', mobile), (''password'', password)])
          else None
      | _ \<Rightarrow> None)"
| "posted_to_gas (PostApi action body) =
     (if action = [] then None else Some (spread_action action (payload_or_empty body)))"
| "posted_to_gas req = None"

text \<open>
  The media resolution step as the specification words it: on a successful
  \<^verbatim>\<open>/api/:action\<close> response (status 200) whose \<^verbatim>\<open>success\<close> and \<^verbatim>\<open>data\<close> are
  truthy, the resolver runs over \<^verbatim>\<open>data\<close>; nothing else changes.
\<close>

definition resolve_data :: "platform \<Rightarrow> world \<Rightarrow> json \<Rightarrow> json" where
  "resolve_data P W result =
     (case (read_prop result ''success'', read_prop result ''data'') of
        (Some s, Some d) \<Rightarrow>
          if truthy s \<and> truthy d
          then with_data result (fst (processImageUrlsToBase64 (base64 P) (image_host W) d))
          else result
      | _ \<Rightarrow> result)"

fun media_step :: "platform \<Rightarrow> world \<Rightarrow> response \<Rightarrow> response" where
  "media_step P W (Json status v) = (if status = 200 then Json status (resolve_data P W v) else Json status v)"
| "media_step P W r = r"

text \<open>
  What the walk leaves in a property of an object: the data URI when the property
  was assigned, the walked value otherwise.
\<close>

definition entry_value ::
  "(byte list \<Rightarrow> string) \<Rightarrow> (string \<Rightarrow> byte list fetched) \<Rightarrow> string \<Rightarrow> json \<Rightarrow> json" where
  "entry_value b h k v =
     (case fst (fetch_if_photo b h k v) of
        Some s \<Rightarrow> JStr s
      | None \<Rightarrow> fst (processImageUrlsToBase64 b h v))"

section \<open>A sample deployment\<close>

text \<open>
  A platform that parses three upstream bodies, a configuration with or without an
  access token, and a world in which the script host and the image hosts give one
  fixed answer each.
\<close>

definition quoted :: "string \<Rightarrow> string" where
  "quoted s = dquote @ s @ dquote"

definition body_failure :: string where
  "body_failure = ''{'' @ quoted ''success'' @ '':false}''"

definition body_zero :: string where
  "body_zero = ''{'' @ quoted ''success'' @ '':true,'' @ quoted ''data'' @ '':0}''"

definition body_photo :: string where
  "body_photo =
     ''{'' @ quoted ''success'' @ '':true,'' @ quoted ''data'' @ '':{'' @ quoted ''PhotoURL'' @ '':'' @
     quoted ''https://valid.img/x.png'' @ ''}}''"

definition sample_bodies :: "(string \<times> json) list" where
  "sample_bodies =
     [(body_failure, JObj [(''success'', JBool False)]),
      (body_zero, JObj [(''success'', JBool True), (''data'', JNum 0)]),
      (body_photo, JObj [(''success'', JBool True),
                         (''data'', JObj [(''PhotoURL'', JStr ''https://valid.img/x.png'')])])]"

definition sample_platform :: platform where
  "sample_platform =
     \<lparr>json_parse = map_of sample_bodies,
      base64 = (\<lambda>bytes. if bytes = [1, 2, 3] then ''AQID'' else []),
      null_read = (\<lambda>k. ''Cannot read properties of null''),
      json_error = (\<lambda>text. ''invalid json response body'')\<rparr>"

definition sample_config :: "string option \<Rightarrow> config" where
  "sample_config token =
     \<lparr>GAS_URL = ''https://script.example/exec'', GITHUB_API_TOKEN = token,
      GITHUB_OWNER = Some ''school'', GITHUB_REPO = Some ''assets''\<rparr>"

definition sample_world :: "string fetched \<Rightarrow> byte list fetched \<Rightarrow> world" where
  "sample_world upstream picture =
     \<lparr>gas = (\<lambda>sent. upstream), github = (\<lambda>url sent. Rejected ''ECONNREFUSED''),
      image_host = (\<lambda>url. picture), files = (\<lambda>name. Failed ''ENOENT'' None False),
      now = 1700000000000\<rparr>"

section \<open>The walk of the resolver\<close>

lemma walk_scalar:
  "\<not> typeof_object v \<Longrightarrow> processImageUrlsToBase64 b h v = (v, [])"
  by (cases v) simp_all

lemma walk_arr:
  "fst (processImageUrlsToBase64 b h (JArr xs)) = JArr (map (\<lambda>x. fst (processImageUrlsToBase64 b h x)) xs)"
  by (simp add: Let_def comp_def)

lemma walk_obj:
  "fst (processImageUrlsToBase64 b h (JObj kvs)) = JObj (map (\<lambda>(k, v). (k, entry_value b h k v)) kvs)"
  by (auto simp add: Let_def comp_def entry_value_def walk_scalar split: prod.splits option.splits)

declare processImageUrlsToBase64.simps(1,2) [simp del]

lemma entry_value_not_string:
  "\<not> is_string v \<Longrightarrow> entry_value b h k v = fst (processImageUrlsToBase64 b h v)"
  by (cases v) (simp_all add: entry_value_def)

lemma entry_value_not_candidate:
  "\<not> candidate k v \<Longrightarrow> entry_value b h k v = fst (processImageUrlsToBase64 b h v)"
  by (cases v) (auto simp add: entry_value_def)

lemma entry_value_string:
  "entry_value b h k (JStr u) =
     (if k = ''PhotoURL'' \<and> is_http u then
        (case h u of Responded status ct bytes \<Rightarrow>
           if ok status then JStr (data_uri b ct bytes) else JStr u
         | Rejected msg \<Rightarrow> JStr u)
      else JStr u)"
  by (simp add: entry_value_def split: fetched.splits)

lemma entry_value_candidate_is_string:
  "candidate k v \<Longrightarrow> is_string (entry_value b h k v)"
  by (cases v) (auto simp add: entry_value_string split: fetched.splits)

lemma at_path_walk:
  "at_path p path = Some (JObj kvs) \<Longrightarrow>
   at_path (fst (processImageUrlsToBase64 b h p)) path =
     Some (fst (processImageUrlsToBase64 b h (JObj kvs)))"
proof (induction path arbitrary: p)
  case Nil
  then show ?case by simp
next
  case (Cons i js)
  from Cons.prems obtain c where c: "child p i = Some c" and rest: "at_path c js = Some (JObj kvs)"
    by (auto split: option.splits)
  have nstr: "\<not> is_string c"
    using rest by (cases c; cases js) auto
  have "child (fst (processImageUrlsToBase64 b h p)) i = Some (fst (processImageUrlsToBase64 b h c))"
  proof (cases p)
    case (JArr xs)
    with c show ?thesis by (auto simp: walk_arr split: if_splits)
  next
    case (JObj es)
    with c have i: "i < length es" and ci: "c = snd (es ! i)" by (auto split: if_splits)
    obtain k where ki: "es ! i = (k, c)" using ci by (cases "es ! i") auto
    show ?thesis using JObj i ki nstr by (simp add: walk_obj entry_value_not_string)
  qed (use c in auto)
  with Cons.IH [OF rest] show ?case by simp
qed

lemma entry_after_walk:
  assumes "at_path p path = Some (JObj kvs)" and "i < length kvs" and "kvs ! i = (k, v)"
  shows "\<exists>kvs'. at_path (fst (processImageUrlsToBase64 b h p)) path = Some (JObj kvs') \<and>
           length kvs' = length kvs \<and> kvs' ! i = (k, entry_value b h k v)"
  using assms by (simp add: at_path_walk walk_obj)

lemma unchanged_items_map:
  "(\<And>x. x \<in> set xs \<Longrightarrow> unchanged_but_photos x (f x)) \<Longrightarrow> unchanged_items xs (map f xs)"
  by (induction xs) auto

lemma unchanged_entries_map:
  "(\<And>k v. (k, v) \<in> set kvs \<Longrightarrow>
      (if candidate k v then is_string (g k v) else unchanged_but_photos v (g k v))) \<Longrightarrow>
   unchanged_entries kvs (map (\<lambda>(k, v). (k, g k v)) kvs)"
  by (induction kvs) auto

lemma walk_unchanged_but_photos:
  "unchanged_but_photos p (fst (processImageUrlsToBase64 b h p))"
proof (induction p)
  case (JArr xs)
  then show ?case by (simp add: walk_arr unchanged_items_map)
next
  case (JObj kvs)
  have "unchanged_entries kvs (map (\<lambda>(k, v). (k, entry_value b h k v)) kvs)"
  proof (rule unchanged_entries_map)
    fix k v assume kv: "(k, v) \<in> set kvs"
    have "unchanged_but_photos v (fst (processImageUrlsToBase64 b h v))"
      using JObj kv by (auto simp: snds.simps)
    then show "if candidate k v then is_string (entry_value b h k v)
               else unchanged_but_photos v (entry_value b h k v)"
      by (simp add: entry_value_candidate_is_string entry_value_not_candidate)
  qed
  then show ?case by (simp add: walk_obj)
qed simp_all

lemma walk_without_key:
  "\<not> has_key ''PhotoURL'' p \<Longrightarrow> fst (processImageUrlsToBase64 b h p) = p"
proof (induction p)
  case (JArr xs)
  then show ?case by (simp add: walk_arr list_ex_iff map_idI)
next
  case (JObj kvs)
  have "map (\<lambda>(k, v). (k, entry_value b h k v)) kvs = kvs"
  proof (rule map_idI)
    fix e assume e: "e \<in> set kvs"
    obtain k v where kv: "e = (k, v)" by (cases e)
    from JObj.prems e kv have k: "k \<noteq> ''PhotoURL''" and nk: "\<not> has_key ''PhotoURL'' v"
      by (auto simp: list_ex_iff)
    have "fst (processImageUrlsToBase64 b h v) = v"
      using JObj.IH e kv nk by (auto simp: snds.simps)
    moreover have "\<not> candidate k v" using k by (cases v) auto
    ultimately show "(case e of (k, v) \<Rightarrow> (k, entry_value b h k v)) = e"
      by (simp add: kv entry_value_not_candidate)
  qed
  then show ?case by (simp add: walk_obj)
qed simp_all

lemma walk_all_fail:
  "(\<And>u. fetch_failed (h u)) \<Longrightarrow> fst (processImageUrlsToBase64 b h p) = p"
proof (induction p)
  case (JArr xs)
  then show ?case by (simp add: walk_arr map_idI)
next
  case (JObj kvs)
  have "map (\<lambda>(k, v). (k, entry_value b h k v)) kvs = kvs"
  proof (rule map_idI)
    fix e assume e: "e \<in> set kvs"
    obtain k v where kv: "e = (k, v)" by (cases e)
    have walk: "fst (processImageUrlsToBase64 b h v) = v"
      using JObj e kv by (auto simp: snds.simps)
    have "entry_value b h k v = v"
    proof (cases v)
      case (JStr u)
      from JObj.prems [of u] show ?thesis
        by (cases "h u") (simp_all add: JStr entry_value_string)
    qed (use walk in \<open>simp_all add: entry_value_not_string\<close>)
    then show "(case e of (k, v) \<Rightarrow> (k, entry_value b h k v)) = e" by (simp add: kv)
  qed
  then show ?case by (simp add: walk_obj)
qed simp_all

lemma data_uri_not_http: "\<not> is_http (data_uri b ct bytes)"
  by (simp add: is_http_def data_uri_def)

lemma entry_value_idem:
  assumes "fst (processImageUrlsToBase64 b h (fst (processImageUrlsToBase64 b h v))) =
           fst (processImageUrlsToBase64 b h v)"
  shows "entry_value b h k (entry_value b h k v) = entry_value b h k v"
proof (cases v)
  case (JStr u)
  show ?thesis
    by (cases "h u") (simp_all add: JStr entry_value_string data_uri_not_http)
next
  case JNull
  then show ?thesis by (simp add: entry_value_not_string)
next
  case (JBool x)
  then show ?thesis by (simp add: entry_value_not_string)
next
  case (JNum x)
  then show ?thesis by (simp add: entry_value_not_string)
next
  case (JArr xs)
  then show ?thesis using assms by (simp add: entry_value_not_string walk_arr)
next
  case (JObj kvs)
  then show ?thesis using assms by (simp add: entry_value_not_string walk_obj)
qed

lemma walk_idem:
  "fst (processImageUrlsToBase64 b h (fst (processImageUrlsToBase64 b h p))) =
   fst (processImageUrlsToBase64 b h p)"
proof (induction p)
  case (JArr xs)
  then show ?case by (simp add: walk_arr)
next
  case (JObj kvs)
  have "map ((\<lambda>(k, v). (k, entry_value b h k v)) \<circ> (\<lambda>(k, v). (k, entry_value b h k v))) kvs =
        map (\<lambda>(k, v). (k, entry_value b h k v)) kvs"
  proof (rule map_cong [OF refl])
    fix e assume e: "e \<in> set kvs"
    obtain k v where kv: "e = (k, v)" by (cases e)
    have "fst (processImageUrlsToBase64 b h (fst (processImageUrlsToBase64 b h v))) =
          fst (processImageUrlsToBase64 b h v)"
      using JObj e kv by (auto simp: snds.simps)
    then show "((\<lambda>(k, v). (k, entry_value b h k v)) \<circ> (\<lambda>(k, v). (k, entry_value b h k v))) e =
               (case e of (k, v) \<Rightarrow> (k, entry_value b h k v))"
      by (simp add: kv entry_value_idem)
  qed
  then show ?case by (simp add: walk_obj)
qed simp_all

section \<open>Properties of the resolver\<close>

text \<open>
  C1. Wherever a payload holds a property named \<^verbatim>\<open>PhotoURL\<close> whose value is a string
  starting with \<^verbatim>\<open>http://\<close> or \<^verbatim>\<open>https://\<close>, and the fetch of that URL answers with a
  2xx status, the walk leaves in the same property of the same object the string
  \<^verbatim>\<open>data:\<close>, the mime type, \<^verbatim>\<open>;base64,\<close> and the encoding of the fetched bytes. The
  mime type is the \<^verbatim>\<open>content-type\<close> of the answer when that is a non-empty string,
  and \<^verbatim>\<open>image/jpeg\<close> when the header is missing or empty.
\<close>

theorem C1_photo_url_becomes_data_uri:
  assumes "at_path p path = Some (JObj kvs)" and "i < length kvs"
    and "kvs ! i = (''PhotoURL'', JStr u)" and "is_http u"
    and "host u = Responded status ct bytes" and "ok status"
  shows "\<exists>kvs'. at_path (fst (processImageUrlsToBase64 enc host p)) path = Some (JObj kvs') \<and>
           length kvs' = length kvs \<and>
           kvs' ! i = (''PhotoURL'',
             JStr (''data:'' @
                   (case ct of None \<Rightarrow> ''image/jpeg'' | Some T \<Rightarrow> if T = [] then ''image/jpeg'' else T) @
                   '';base64,'' @ enc bytes))"
proof -
  have "entry_value enc host ''PhotoURL'' (JStr u) =
        JStr (''data:'' @
              (case ct of None \<Rightarrow> ''image/jpeg'' | Some T \<Rightarrow> if T = [] then ''image/jpeg'' else T) @
              '';base64,'' @ enc bytes)"
    using assms(4-6) by (cases ct) (simp_all add: entry_value_string data_uri_def)
  with entry_after_walk [OF assms(1-3), of enc host] show ?thesis by simp
qed

theorem C1_photo_url_becomes_data_uri_witness:
  "\<exists>kvs'. at_path (fst (processImageUrlsToBase64 (\<lambda>bs. ''AQID'')
               (\<lambda>u. Responded 200 (Some ''image/png'') [1, 2, 3])
               (JArr [JObj [(''Name'', JStr ''Asha''), (''PhotoURL'', JStr ''https://valid.img/x.png'')]])))
             [0] = Some (JObj kvs') \<and>
          length kvs' = length [(''Name'', JStr ''Asha''), (''PhotoURL'', JStr ''https://valid.img/x.png'')] \<and>
          kvs' ! 1 = (''PhotoURL'', JStr ''data:image/png;base64,AQID'')"
proof -
  have a: "at_path (JArr [JObj [(''Name'', JStr ''Asha''), (''PhotoURL'', JStr ''https://valid.img/x.png'')]]) [0]
           = Some (JObj [(''Name'', JStr ''Asha''), (''PhotoURL'', JStr ''https://valid.img/x.png'')])"
    by simp
  have b: "(1::nat) < length [(''Name'', JStr ''Asha''), (''PhotoURL'', JStr ''https://valid.img/x.png'')]"
    by simp
  have c: "[(''Name'', JStr ''Asha''), (''PhotoURL'', JStr ''https://valid.img/x.png'')] ! 1
           = (''PhotoURL'', JStr ''https://valid.img/x.png'')"
    by simp
  have d: "is_http ''https://valid.img/x.png''" by (simp add: is_http_def)
  have e: "(\<lambda>u::string. Responded 200 (Some ''image/png'') [1, 2, 3::byte]) ''https://valid.img/x.png''
           = Responded 200 (Some ''image/png'') [1, 2, 3]" by simp
  have f: "ok 200" by (simp add: ok_def)
  from C1_photo_url_becomes_data_uri [OF a b c d e f, of "\<lambda>bs. ''AQID''"] show ?thesis
    by (simp del: length_Cons nth_Cons_Suc One_nat_def)
qed

text \<open>
  The claim as it was worded fails for an answer whose \<^verbatim>\<open>content-type\<close> header is
  the empty string: the value becomes \<^verbatim>\<open>data:image/jpeg;base64,...\<close>, not
  \<^verbatim>\<open>data:;base64,...\<close>.
\<close>

theorem C1_empty_content_type_counterexample:
  "fst (processImageUrlsToBase64 (\<lambda>bs. ''AQID'') (\<lambda>u. Responded 200 (Some []) [1, 2, 3])
          (JObj [(''PhotoURL'', JStr ''https://valid.img/x.png'')]))
   = JObj [(''PhotoURL'', JStr ''data:image/jpeg;base64,AQID'')] \<and>
   ''data:image/jpeg;base64,AQID'' \<noteq> ''data:'' @ [] @ '';base64,'' @ ''AQID''"
  by (simp add: walk_obj entry_value_string is_http_def ok_def data_uri_def)

text \<open>
  C2. The walk changes nothing but the values of properties named \<^verbatim>\<open>PhotoURL\<close> that
  hold a string starting with \<^verbatim>\<open>http://\<close> or \<^verbatim>\<open>https://\<close>: every other key and
  value, the shape of every object, the length and order of every array stay as they
  were. A payload in which no key is named \<^verbatim>\<open>PhotoURL\<close> comes out as it went in.
\<close>

theorem C2_walk_changes_only_photo_urls:
  "unchanged_but_photos p (fst (processImageUrlsToBase64 enc host p)) \<and>
   (\<not> has_key ''PhotoURL'' p \<longrightarrow> fst (processImageUrlsToBase64 enc host p) = p)"
  by (simp add: walk_unchanged_but_photos walk_without_key)

theorem C2_walk_changes_only_photo_urls_witness:
  "\<not> has_key ''PhotoURL'' (JObj [(''foo'', JStr ''bar''), (''rows'', JArr [JNum 1, JNull])]) \<and>
   fst (processImageUrlsToBase64 (\<lambda>bs. ''AQID'') (\<lambda>u. Responded 200 None [])
          (JObj [(''foo'', JStr ''bar''), (''rows'', JArr [JNum 1, JNull])]))
     = JObj [(''foo'', JStr ''bar''), (''rows'', JArr [JNum 1, JNull])] \<and>
   unchanged_but_photos
     (JObj [(''Name'', JStr ''Asha''), (''PhotoURL'', JStr ''https://valid.img/x.png'')])
     (fst (processImageUrlsToBase64 (\<lambda>bs. ''AQID'') (\<lambda>u. Responded 200 None [])
          (JObj [(''Name'', JStr ''Asha''), (''PhotoURL'', JStr ''https://valid.img/x.png'')])))"
proof -
  have a: "\<not> has_key ''PhotoURL'' (JObj [(''foo'', JStr ''bar''), (''rows'', JArr [JNum 1, JNull])])"
    by simp
  from a C2_walk_changes_only_photo_urls
         [of "JObj [(''foo'', JStr ''bar''), (''rows'', JArr [JNum 1, JNull])]"
             "\<lambda>bs. ''AQID''" "\<lambda>u. Responded 200 None []"]
       C2_walk_changes_only_photo_urls
         [of "JObj [(''Name'', JStr ''Asha''), (''PhotoURL'', JStr ''https://valid.img/x.png'')]"
             "\<lambda>bs. ''AQID''" "\<lambda>u. Responded 200 None []"]
  show ?thesis by blast
qed

text \<open>
  C4. A property named \<^verbatim>\<open>PhotoURL\<close> whose string does not start with \<^verbatim>\<open>http://\<close> or
  \<^verbatim>\<open>https://\<close> (a data URI, the empty string) is left as it is, and walking a
  payload a second time, with the image hosts answering as before, gives what the
  first walk gave.
\<close>

theorem C4_walk_idempotent:
  "(at_path p path = Some (JObj kvs) \<and> i < length kvs \<and> kvs ! i = (''PhotoURL'', JStr s) \<and>
    \<not> is_http s \<longrightarrow>
      (\<exists>kvs'. at_path (fst (processImageUrlsToBase64 enc host p)) path = Some (JObj kvs') \<and>
         length kvs' = length kvs \<and> kvs' ! i = (''PhotoURL'', JStr s))) \<and>
   fst (processImageUrlsToBase64 enc host (fst (processImageUrlsToBase64 enc host p))) =
     fst (processImageUrlsToBase64 enc host p)"
proof -
  have "\<exists>kvs'. at_path (fst (processImageUrlsToBase64 enc host p)) path = Some (JObj kvs') \<and>
          length kvs' = length kvs \<and> kvs' ! i = (''PhotoURL'', JStr s)"
    if "at_path p path = Some (JObj kvs)" "i < length kvs" "kvs ! i = (''PhotoURL'', JStr s)"
       "\<not> is_http s"
    using entry_after_walk [OF that(1-3), of enc host] that(4) by (simp add: entry_value_string)
  then show ?thesis by (simp add: walk_idem)
qed

theorem C4_walk_idempotent_witness:
  "(\<exists>kvs'. at_path (fst (processImageUrlsToBase64 (\<lambda>bs. ''AQID'') (\<lambda>u. Responded 200 None [1])
               (JObj [(''PhotoURL'', JStr ''data:image/png;base64,AQID'')]))) [] = Some (JObj kvs') \<and>
      length kvs' = length [(''PhotoURL'', JStr ''data:image/png;base64,AQID'')] \<and>
      kvs' ! 0 = (''PhotoURL'', JStr ''data:image/png;base64,AQID'')) \<and>
   fst (processImageUrlsToBase64 (\<lambda>bs. ''AQID'') (\<lambda>u. Responded 200 None [1])
     (fst (processImageUrlsToBase64 (\<lambda>bs. ''AQID'') (\<lambda>u. Responded 200 None [1])
        (JObj [(''PhotoURL'', JStr ''data:image/png;base64,AQID'')])))) =
   fst (processImageUrlsToBase64 (\<lambda>bs. ''AQID'') (\<lambda>u. Responded 200 None [1])
        (JObj [(''PhotoURL'', JStr ''data:image/png;base64,AQID'')]))"
proof -
  have a: "at_path (JObj [(''PhotoURL'', JStr ''data:image/png;base64,AQID'')]) [] =
           Some (JObj [(''PhotoURL'', JStr ''data:image/png;base64,AQID'')]) \<and>
           0 < length [(''PhotoURL'', JStr ''data:image/png;base64,AQID'')] \<and>
           [(''PhotoURL'', JStr ''data:image/png;base64,AQID'')] ! 0 =
             (''PhotoURL'', JStr ''data:image/png;base64,AQID'') \<and>
           \<not> is_http ''data:image/png;base64,AQID''"
    by (simp add: is_http_def)
  from a C4_walk_idempotent
         [of "JObj [(''PhotoURL'', JStr ''data:image/png;base64,AQID'')]" "[]"
             "[(''PhotoURL'', JStr ''data:image/png;base64,AQID'')]" 0
             "''data:image/png;base64,AQID''" "\<lambda>bs. ''AQID''" "\<lambda>u. Responded 200 None [1]"]
  show ?thesis by blast
qed

section \<open>The handlers, step by step\<close>

lemmas sample_defs =
  sample_platform_def sample_config_def sample_world_def sample_bodies_def
  body_failure_def body_zero_def body_photo_def quoted_def dquote_def

lemma assign_same: "map_of kvs k = Some v \<Longrightarrow> assign kvs k v = kvs"
  by (induction kvs) (auto split: if_splits)

lemma map_of_assign: "map_of (assign kvs k v) k' = (if k' = k then Some v else map_of kvs k')"
  by (induction kvs) auto

lemma with_data_same: "read_prop result ''data'' = Some d \<Longrightarrow> with_data result d = result"
  by (cases result) (simp_all add: assign_same)

lemma read_prop_with_data:
  "k \<noteq> ''data'' \<Longrightarrow> read_prop (with_data result d) k = read_prop result k"
  by (cases result) (simp_all add: map_of_assign)

lemma access_Inr: "result \<noteq> JNull \<Longrightarrow> access P result k = Inr (read_prop result k)"
  by (cases result) simp_all

lemma truthy_prop_not_null: "truthy_opt (read_prop result k) \<Longrightarrow> result \<noteq> JNull"
  by auto

lemma resolve_data_all_fail:
  "(\<And>u. fetch_failed (image_host W u)) \<Longrightarrow> resolve_data P W result = result"
  by (auto simp: resolve_data_def walk_all_fail with_data_same split: option.splits)

lemma read_prop_resolve_data:
  "k \<noteq> ''data'' \<Longrightarrow> read_prop (resolve_data P W result) k = read_prop result k"
  by (auto simp: resolve_data_def read_prop_with_data split: option.splits)

lemma entry_value_failed:
  "fetch_failed (h u) \<Longrightarrow> entry_value b h k (JStr u) = JStr u"
  by (cases "h u") (simp_all add: entry_value_string)

lemma api_part_success:
  assumes "action \<noteq> []"
    and "gas W (spread_action action (payload_or_empty body)) = Responded status ct text"
    and "ok status" and "json_parse P text = Some result" and "result \<noteq> JNull"
  shows "fst (api_action_part P C W action body) = Json 200 (resolve_data P W result)"
  using assms
  by (auto simp: api_action_part_def Let_def access_Inr resolve_data_def with_data_same
           split: option.splits prod.splits)

lemma paired_failure [simp]: "paired (failure msg)" "paired (failure_details msg d)"
  by (simp_all add: paired_def failure_def failure_details_def)

lemma paired_success: "paired (JObj [(''success'', JBool True), (''url'', link)])"
  by (simp add: paired_def)

lemma upload_envelope:
  assumes "fst (upload_image P C W body) = Json status v"
  shows "paired v"
  using assms
  by (auto simp: upload_image_def upload_failed_def Let_def paired_success
           split: option.splits if_splits fetched.splits sum.splits json.splits)


lemma status_or_502_not_200: "\<not> ok st \<Longrightarrow> status_or_502 st \<noteq> 200"
  by (auto simp: status_or_502_def ok_def)

lemma api_app_success:
  assumes "action \<noteq> []"
    and "gas W (spread_action action (payload_or_empty body)) = Responded status ct text"
    and "ok status" and "json_parse P text = Some result" and "result \<noteq> JNull"
  shows "fst (api_action_app P C W action body) = Json 200 result"
  using assms
  by (auto simp: api_action_app_def Let_def access_Inr split: option.splits)

lemma api_part_media_step:
  "fst (api_action_part P C W action body) = media_step P W (fst (api_action_app P C W action body))"
proof (cases "action = []")
  case True
  then show ?thesis by (simp add: api_action_part_def api_action_app_def Let_def)
next
  case False
  show ?thesis
  proof (cases "gas W (spread_action action (payload_or_empty body))")
    case (Rejected msg)
    with False show ?thesis by (simp add: api_action_part_def api_action_app_def Let_def)
  next
    case (Responded st ct raw)
    show ?thesis
    proof (cases "json_parse P raw")
      case None
      with False Responded show ?thesis
        by (simp add: api_action_part_def api_action_app_def Let_def)
    next
      case (Some result)
      show ?thesis
      proof (cases "ok st")
        case nok: False
        with \<open>action \<noteq> []\<close> Responded Some show ?thesis
          by (simp add: api_action_part_def api_action_app_def Let_def status_or_502_not_200)
      next
        case True
        show ?thesis
        proof (cases "result = JNull")
          case True
          with \<open>action \<noteq> []\<close> Responded Some \<open>ok st\<close> show ?thesis
            by (simp add: api_action_part_def api_action_app_def Let_def)
        next
          case False
          from api_part_success [OF \<open>action \<noteq> []\<close> Responded \<open>ok st\<close> Some False, of C]
               api_app_success [OF \<open>action \<noteq> []\<close> Responded \<open>ok st\<close> Some False, of C]
          show ?thesis by simp
        qed
      qed
    qed
  qed
qed

lemma sanitize_chars: "c \<in> set (sanitize name) \<Longrightarrow> kept c \<or> c = CHR ''_''"
  by (auto simp: sanitize_def)

lemma upload_failed_calls:
  "\<exists>rest. snd (upload_failed P call status result) = call # rest"
  by (cases "access P result ''message''") (simp_all add: upload_failed_def)

lemma upload_calls_github:
  assumes "\<not> unset (GITHUB_API_TOKEN C)" "\<not> unset (GITHUB_OWNER C)" "\<not> unset (GITHUB_REPO C)"
    and "read_prop b ''image'' = Some img" and "truthy img"
    and "read_prop b ''fileName'' = Some (JStr name)" and "name \<noteq> []"
  shows "\<exists>rest. snd (upload_image P C W (Some b)) =
           Outbound ''PUT'' (GITHUB_API_URL C (now W) name) # rest"
proof -
  from assms(4) have nn: "b \<noteq> JNull" by auto
  note pre = assms nn
  show ?thesis
  proof (cases "github W (GITHUB_API_URL C (now W) name)
                  (JObj [(''message'', JStr (''Upload image: '' @ sanitizedFileName (now W) name)),
                         (''content'', img)])")
    case (Rejected msg)
    with pre show ?thesis by (simp add: upload_image_def Let_def)
  next
    case (Responded st ct raw)
    show ?thesis
    proof (cases "json_parse P raw")
      case None
      with pre Responded show ?thesis by (simp add: upload_image_def Let_def)
    next
      case (Some result)
      show ?thesis
      proof (cases "ok st")
        case False
        with pre Responded Some show ?thesis
          by (simp add: upload_image_def Let_def upload_failed_calls)
      next
        case True
        show ?thesis
        proof (cases "access P result ''content''")
          case (Inl msg)
          with pre Responded Some True show ?thesis by (simp add: upload_image_def Let_def)
        next
          case (Inr content)
          show ?thesis
          proof (cases "download_url content")
            case None
            with pre Responded Some True Inr show ?thesis
              by (simp add: upload_image_def Let_def upload_failed_calls)
          next
            case (Some link)
            with pre Responded \<open>json_parse P raw = Some result\<close> True Inr show ?thesis
              by (simp add: upload_image_def Let_def upload_failed_calls)
          qed
        qed
      qed
    qed
  qed
qed

lemma kept_iff_class:
  "kept c \<longleftrightarrow>
     c \<in> set ''abcdefghijklmnopqrstuvwxyzABCDEFGHIJKLMNOPQRSTUVWXYZ0123456789.-''"
proof (cases c)
  case (Char b0 b1 b2 b3 b4 b5 b6 b7)
  show ?thesis
    unfolding Char kept_def less_eq_char_def
    by (cases b0; cases b1; cases b2; cases b3; cases b4; cases b5; cases b6; cases b7) simp_all
qed

lemma sanitize_class:
  "sanitize name =
     map (\<lambda>c. if c \<in> set ''abcdefghijklmnopqrstuvwxyzABCDEFGHIJKLMNOPQRSTUVWXYZ0123456789.-''
               then c else CHR ''_'') name"
  by (simp only: sanitize_def kept_iff_class)

lemma posted_login:
  assumes "posted_to_gas (PostLogin body) = Some sent"
  obtains b mobile password where "body = Some b" "b \<noteq> JNull"
    "read_prop b ''mobile'' = Some mobile" "read_prop b ''password'' = Some password"
    "truthy mobile" "truthy password"
    "sent = JObj [(''action'', JStr ''login''), (''mobile'', mobile), (''password'', password)]"
proof (cases body)
  case None
  with assms show ?thesis by simp
next
  case (Some b)
  with assms that show ?thesis
    by (cases b) (auto split: option.splits if_splits)
qed

lemma login_upstream:
  assumes "posted_to_gas (PostLogin body) = Some sent"
    and "gas W sent = Responded st ct raw" and "json_parse P raw = Some result"
  shows "fst (login P C W body) =
           (if ok st then Json 200 result
            else Json (status_or_502 st)
                   (if truthy result then result
                    else failure (''Upstream GAS error: '' @ show_nat st)))"
proof -
  from assms(1) obtain b mobile password where
    "body = Some b" "b \<noteq> JNull"
    "read_prop b ''mobile'' = Some mobile" "read_prop b ''password'' = Some password"
    "truthy mobile" "truthy password"
    "sent = JObj [(''action'', JStr ''login''), (''mobile'', mobile), (''password'', password)]"
    by (rule posted_login)
  with assms(2,3) show ?thesis by (simp add: login_def Let_def)
qed

lemma login_built_or_forwarded:
  assumes "fst (login P C W body) = Json status v"
  shows "paired v \<or>
         (\<exists>sent st ct raw. posted_to_gas (PostLogin body) = Some sent \<and>
            gas W sent = Responded st ct raw \<and> json_parse P raw = Some v)"
proof (cases "posted_to_gas (PostLogin body)")
  case None
  with assms have "paired v"
    by (cases body)
       (auto simp: login_def Let_def split: option.splits if_splits json.splits)
  then show ?thesis ..
next
  case (Some sent)
  show ?thesis
  proof (cases "gas W sent")
    case (Rejected msg)
    from Some obtain b mobile password where
      "body = Some b" "b \<noteq> JNull"
      "read_prop b ''mobile'' = Some mobile" "read_prop b ''password'' = Some password"
      "truthy mobile" "truthy password"
      "sent = JObj [(''action'', JStr ''login''), (''mobile'', mobile), (''password'', password)]"
      by (rule posted_login)
    with Rejected assms show ?thesis by (auto simp: login_def Let_def)
  next
    case (Responded st ct raw)
    show ?thesis
    proof (cases "json_parse P raw")
      case None
      from Some obtain b mobile password where
        "body = Some b" "b \<noteq> JNull"
        "read_prop b ''mobile'' = Some mobile" "read_prop b ''password'' = Some password"
        "truthy mobile" "truthy password"
        "sent = JObj [(''action'', JStr ''login''), (''mobile'', mobile), (''password'', password)]"
        by (rule posted_login)
      with Responded None assms show ?thesis by (auto simp: login_def Let_def)
    next
      case parsed: (Some result)
      from login_upstream [OF Some Responded parsed, of C] assms
      have "paired v \<or> v = result" by (auto split: if_splits)
      with Some Responded parsed show ?thesis by blast
    qed
  qed
qed

lemma api_upstream_failure:
  assumes "action \<noteq> []"
    and "gas W (spread_action action (payload_or_empty body)) = Responded st ct raw"
    and "json_parse P raw = Some result" and "\<not> ok st"
  shows "fst (api_action_app P C W action body) =
           Json (status_or_502 st)
             (if truthy result then result
              else failure (''Upstream GAS error for '' @ action @ '': '' @ show_nat st))"
    and "fst (api_action_part P C W action body) =
           Json (status_or_502 st)
             (if truthy result then result
              else failure (''Upstream GAS error for '' @ action @ '': '' @ show_nat st))"
  using assms by (simp_all add: api_action_app_def api_action_part_def Let_def)

lemma api_null:
  assumes "action \<noteq> []"
    and "gas W (spread_action action (payload_or_empty body)) = Responded st ct raw"
    and "json_parse P raw = Some JNull" and "ok st"
  shows "fst (api_action_app P C W action body) =
           Json 500 (failure_details (''Proxy server error during action: '' @ action @ ''.'')
                       (null_read P ''success''))"
    and "fst (api_action_part P C W action body) =
           Json 500 (failure_details (''Proxy server error during action: '' @ action @ ''.'')
                       (null_read P ''success''))"
  using assms by (simp_all add: api_action_app_def api_action_part_def Let_def)

lemma api_app_built_or_forwarded:
  assumes "fst (api_action_app P C W action body) = Json status v"
  shows "paired v \<or>
         (\<exists>sent st ct raw. posted_to_gas (PostApi action body) = Some sent \<and>
            gas W sent = Responded st ct raw \<and> json_parse P raw = Some v)"
proof (cases "action = []")
  case True
  with assms show ?thesis by (auto simp: api_action_app_def Let_def)
next
  case False
  show ?thesis
  proof (cases "gas W (spread_action action (payload_or_empty body))")
    case (Rejected msg)
    with assms False show ?thesis by (auto simp: api_action_app_def Let_def)
  next
    case (Responded st ct raw)
    show ?thesis
    proof (cases "json_parse P raw")
      case None
      with assms False Responded show ?thesis by (auto simp: api_action_app_def Let_def)
    next
      case (Some result)
      have "paired v \<or> v = result"
      proof (cases "ok st")
        case False
        from api_upstream_failure(1) [OF \<open>action \<noteq> []\<close> Responded Some False, of C] assms
        show ?thesis by (auto split: if_splits)
      next
        case True
        show ?thesis
        proof (cases "result = JNull")
          case True
          from api_null(1) [OF \<open>action \<noteq> []\<close> Responded Some [unfolded True] \<open>ok st\<close>, of C] assms
          show ?thesis by auto
        next
          case False
          from api_app_success [OF \<open>action \<noteq> []\<close> Responded \<open>ok st\<close> Some False, of C] assms
          show ?thesis by simp
        qed
      qed
      with \<open>action \<noteq> []\<close> Responded Some show ?thesis by auto
    qed
  qed
qed

lemma api_part_built_or_forwarded:
  assumes "fst (api_action_part P C W action body) = Json status v"
  shows "paired v \<or>
         (\<exists>sent st ct raw result. posted_to_gas (PostApi action body) = Some sent \<and>
            gas W sent = Responded st ct raw \<and> json_parse P raw = Some result \<and>
            (v = result \<or> v = resolve_data P W result))"
proof (cases "action = []")
  case True
  with assms show ?thesis by (auto simp: api_action_part_def Let_def)
next
  case False
  show ?thesis
  proof (cases "gas W (spread_action action (payload_or_empty body))")
    case (Rejected msg)
    with assms False show ?thesis by (auto simp: api_action_part_def Let_def)
  next
    case (Responded st ct raw)
    show ?thesis
    proof (cases "json_parse P raw")
      case None
      with assms False Responded show ?thesis by (auto simp: api_action_part_def Let_def)
    next
      case (Some result)
      have "paired v \<or> v = result \<or> v = resolve_data P W result"
      proof (cases "ok st")
        case False
        from api_upstream_failure(2) [OF \<open>action \<noteq> []\<close> Responded Some False, of C] assms
        show ?thesis by (auto split: if_splits)
      next
        case True
        show ?thesis
        proof (cases "result = JNull")
          case True
          from api_null(2) [OF \<open>action \<noteq> []\<close> Responded Some [unfolded True] \<open>ok st\<close>, of C] assms
          show ?thesis by auto
        next
          case False
          from api_part_success [OF \<open>action \<noteq> []\<close> Responded \<open>ok st\<close> Some False, of C] assms
          show ?thesis by simp
        qed
      qed
      with \<open>action \<noteq> []\<close> Responded Some show ?thesis by auto
    qed
  qed
qed

section \<open>Properties of the routers\<close>

text \<open>
  C3. A property named \<^verbatim>\<open>PhotoURL\<close> whose fetch fails (the promise rejects, or the
  status is not 2xx) keeps its URL. When the script host answers \<^verbatim>\<open>/api/:action\<close>
  with a 2xx status and a JSON body whose \<^verbatim>\<open>success\<close> is truthy, the router answers
  200 with that body, \<^verbatim>\<open>data\<close> walked, whatever the image hosts do: \<^verbatim>\<open>success\<close> is
  the upstream's, and when every image fetch fails the body is the upstream's body
  unchanged.
\<close>

theorem C3_failed_photo_fetch_keeps_url_and_status:
  "(at_path p path = Some (JObj kvs) \<and> i < length kvs \<and> kvs ! i = (''PhotoURL'', JStr u) \<and>
    fetch_failed (image_host W u) \<longrightarrow>
      (\<exists>kvs'. at_path (fst (processImageUrlsToBase64 (base64 P) (image_host W) p)) path = Some (JObj kvs') \<and>
         length kvs' = length kvs \<and> kvs' ! i = (''PhotoURL'', JStr u))) \<and>
   (action \<noteq> [] \<and> gas W (spread_action action (payload_or_empty body)) = Responded status ct text \<and>
    ok status \<and> json_parse P text = Some result \<and> truthy_opt (read_prop result ''success'') \<longrightarrow>
      fst (api_action_part P C W action body) = Json 200 (resolve_data P W result) \<and>
      read_prop (resolve_data P W result) ''success'' = read_prop result ''success'' \<and>
      ((\<forall>u. fetch_failed (image_host W u)) \<longrightarrow> resolve_data P W result = result))"
proof -
  have "\<exists>kvs'. at_path (fst (processImageUrlsToBase64 (base64 P) (image_host W) p)) path = Some (JObj kvs') \<and>
          length kvs' = length kvs \<and> kvs' ! i = (''PhotoURL'', JStr u)"
    if "at_path p path = Some (JObj kvs)" "i < length kvs" "kvs ! i = (''PhotoURL'', JStr u)"
       "fetch_failed (image_host W u)"
    using entry_after_walk [OF that(1-3), of "base64 P" "image_host W"]
    by (simp add: entry_value_failed [of "image_host W" u, OF that(4)])
  moreover have "fst (api_action_part P C W action body) = Json 200 (resolve_data P W result)"
    if "action \<noteq> []" "gas W (spread_action action (payload_or_empty body)) = Responded status ct text"
       "ok status" "json_parse P text = Some result" "truthy_opt (read_prop result ''success'')"
  proof -
    from that(5) have "result \<noteq> JNull" by auto
    with that(1-4) show ?thesis by (rule api_part_success)
  qed
  ultimately show ?thesis
    by (simp add: read_prop_resolve_data resolve_data_all_fail)
qed

theorem C3_failed_photo_fetch_keeps_url_and_status_witness:
  "(\<exists>kvs'. at_path (fst (processImageUrlsToBase64 (base64 sample_platform)
               (image_host (sample_world (Responded 200 (Some ''application/json'') body_photo)
                                         (Responded 404 None [])))
               (JObj [(''PhotoURL'', JStr ''https://valid.img/x.png'')]))) [] = Some (JObj kvs') \<and>
      length kvs' = length [(''PhotoURL'', JStr ''https://valid.img/x.png'')] \<and>
      kvs' ! 0 = (''PhotoURL'', JStr ''https://valid.img/x.png'')) \<and>
   fst (api_action_part sample_platform (sample_config None)
          (sample_world (Responded 200 (Some ''application/json'') body_photo) (Responded 404 None []))
          ''getStudent'' (Some (JObj [])))
     = Json 200 (JObj [(''success'', JBool True),
                       (''data'', JObj [(''PhotoURL'', JStr ''https://valid.img/x.png'')])])"
proof -
  let ?W = "sample_world (Responded 200 (Some ''application/json'') body_photo) (Responded 404 None [])"
  let ?result = "JObj [(''success'', JBool True),
                       (''data'', JObj [(''PhotoURL'', JStr ''https://valid.img/x.png'')])]"
  have a: "at_path (JObj [(''PhotoURL'', JStr ''https://valid.img/x.png'')]) [] =
             Some (JObj [(''PhotoURL'', JStr ''https://valid.img/x.png'')]) \<and>
           0 < length [(''PhotoURL'', JStr ''https://valid.img/x.png'')] \<and>
           [(''PhotoURL'', JStr ''https://valid.img/x.png'')] ! 0 =
             (''PhotoURL'', JStr ''https://valid.img/x.png'') \<and>
           fetch_failed (image_host ?W ''https://valid.img/x.png'')"
    by (simp add: sample_world_def ok_def)
  have b: "''getStudent'' \<noteq> [] \<and>
           gas ?W (spread_action ''getStudent'' (payload_or_empty (Some (JObj [])))) =
             Responded 200 (Some ''application/json'') body_photo \<and>
           ok 200 \<and> json_parse sample_platform body_photo = Some ?result \<and>
           truthy_opt (read_prop ?result ''success'')"
    by (simp add: sample_defs ok_def)
  have c: "\<forall>u. fetch_failed (image_host ?W u)"
    by (simp add: sample_world_def ok_def)
  from a b c C3_failed_photo_fetch_keeps_url_and_status
         [of "JObj [(''PhotoURL'', JStr ''https://valid.img/x.png'')]" "[]"
             "[(''PhotoURL'', JStr ''https://valid.img/x.png'')]" 0 "''https://valid.img/x.png''"
             ?W sample_platform "''getStudent''" "Some (JObj [])" 200 "Some ''application/json''"
             body_photo ?result "sample_config None"]
  show ?thesis by metis
qed

text \<open>
  C5. Every JSON body the routers build themselves pairs \<^verbatim>\<open>success: false\<close> with an
  \<^verbatim>\<open>error\<close>; a JSON body that does not is the parsed body of the script host's
  answer to this request (with \<^verbatim>\<open>data\<close> walked, on part_000). That body is
  forwarded as it was sent, whatever its fields: with the upstream status (or 502)
  when the status is not 2xx and the body is truthy, with 200 when the status is
  2xx (on \<^verbatim>\<open>/api/:action\<close> part_000 walks its \<^verbatim>\<open>data\<close>, and a body \<^verbatim>\<open>null\<close> is
  not forwarded: the routers answer a 500 of their own).
\<close>

theorem C5_router_envelopes_pair_error:
  assumes "R = router_app_js \<or> R = router_part_000"
  shows "(fst (R P C W req) = Json status v \<longrightarrow>
            paired v \<or>
            (\<exists>sent st ct raw result.
                posted_to_gas req = Some sent \<and> gas W sent = Responded st ct raw \<and>
                json_parse P raw = Some result \<and>
                (v = result \<or> (R = router_part_000 \<and> v = resolve_data P W result)))) \<and>
         (posted_to_gas req = Some sent \<and> gas W sent = Responded st ct raw \<and>
          json_parse P raw = Some result \<longrightarrow>
            (\<not> ok st \<and> truthy result \<longrightarrow> fst (R P C W req) = Json (status_or_502 st) result) \<and>
            (ok st \<and> (\<exists>body. req = PostLogin body) \<longrightarrow> fst (R P C W req) = Json 200 result) \<and>
            (ok st \<and> (\<exists>action body. req = PostApi action body) \<and> result \<noteq> JNull \<longrightarrow>
               fst (router_app_js P C W req) = Json 200 result \<and>
               fst (router_part_000 P C W req) = Json 200 (resolve_data P W result)) \<and>
            (ok st \<and> (\<exists>action body. req = PostApi action body) \<and> result = JNull \<longrightarrow>
               (\<exists>built. fst (R P C W req) = Json 500 built \<and> paired built)))"
proof -
  have static: "fst (get_root W) \<noteq> Json status v" "fst (get_tools W) \<noteq> Json status v"
    "fst (get_generator W) \<noteq> Json status v" "fst health \<noteq> Json status v"
    "fst not_found \<noteq> Json status v"
    by (simp_all add: get_root_def get_tools_def get_generator_def health_def not_found_def
          split: sent.splits)
  show ?thesis
  proof (cases req)
    case (PostLogin body)
    have R: "fst (R P C W req) = fst (login P C W body)"
      using assms PostLogin by (auto simp: router_app_js_def router_part_000_def)
    have "paired v \<or>
            (\<exists>sent st ct raw result.
                posted_to_gas req = Some sent \<and> gas W sent = Responded st ct raw \<and>
                json_parse P raw = Some result \<and>
                (v = result \<or> (R = router_part_000 \<and> v = resolve_data P W result)))"
      if "fst (R P C W req) = Json status v"
      using login_built_or_forwarded [of P C W body status v] that R PostLogin by auto
    moreover have "fst (R P C W req) =
           (if ok st then Json 200 result
            else Json (status_or_502 st)
                   (if truthy result then result
                    else failure (''Upstream GAS error: '' @ show_nat st)))"
      if "posted_to_gas req = Some sent" "gas W sent = Responded st ct raw"
         "json_parse P raw = Some result"
      using login_upstream [of body sent W st ct raw P result C] that R PostLogin by simp
    ultimately show ?thesis using PostLogin by auto
  next
    case (PostUploadImage body)
    have "paired v" if "fst (R P C W req) = Json status v"
      using assms that static PostUploadImage upload_envelope [of P C W body status v]
      by (auto simp: router_app_js_def router_part_000_def)
    with PostUploadImage show ?thesis by auto
  next
    case (PostApi action body)
    have app: "fst (router_app_js P C W req) = fst (api_action_app P C W action body)"
      and part: "fst (router_part_000 P C W req) = fst (api_action_part P C W action body)"
      using PostApi by (simp_all add: router_app_js_def router_part_000_def)
    have first: "paired v \<or>
            (\<exists>sent st ct raw result.
                posted_to_gas req = Some sent \<and> gas W sent = Responded st ct raw \<and>
                json_parse P raw = Some result \<and>
                (v = result \<or> (R = router_part_000 \<and> v = resolve_data P W result)))"
      if "fst (R P C W req) = Json status v"
      using assms
    proof
      assume "R = router_app_js"
      with that app api_app_built_or_forwarded [of P C W action body status v] PostApi
      show ?thesis by auto
    next
      assume "R = router_part_000"
      with that part api_part_built_or_forwarded [of P C W action body status v] PostApi
      show ?thesis by auto
    qed
    have second:
      "(\<not> ok st \<and> truthy result \<longrightarrow> fst (R P C W req) = Json (status_or_502 st) result) \<and>
       (ok st \<and> result \<noteq> JNull \<longrightarrow>
               fst (router_app_js P C W req) = Json 200 result \<and>
               fst (router_part_000 P C W req) = Json 200 (resolve_data P W result)) \<and>
       (ok st \<and> result = JNull \<longrightarrow>
               (\<exists>built. fst (R P C W req) = Json 500 built \<and> paired built))"
      if p: "posted_to_gas req = Some sent" "gas W sent = Responded st ct raw"
         "json_parse P raw = Some result"
    proof -
      from p(1) PostApi have a: "action \<noteq> []"
        and s: "sent = spread_action action (payload_or_empty body)"
        by (auto split: if_splits)
      note g = p(2) [unfolded s]
      have "fst (R P C W req) = Json (status_or_502 st) result" if "\<not> ok st" "truthy result"
        using assms app part api_upstream_failure [OF a g p(3) that(1), of C] that(2) by auto
      moreover have "fst (router_app_js P C W req) = Json 200 result \<and>
               fst (router_part_000 P C W req) = Json 200 (resolve_data P W result)"
        if "ok st" "result \<noteq> JNull"
        using app part api_app_success [OF a g that(1) p(3) that(2), of C]
              api_part_success [OF a g that(1) p(3) that(2), of C] by simp
      moreover have "\<exists>built. fst (R P C W req) = Json 500 built \<and> paired built"
        if "ok st" "result = JNull"
        using assms app part api_null [OF a g p(3) [unfolded that(2)] that(1), of C] by auto
      ultimately show ?thesis by blast
    qed
    from first second PostApi show ?thesis by auto
  qed (use assms static in \<open>auto simp: router_app_js_def router_part_000_def\<close>)
qed

theorem C5_router_envelopes_pair_error_witness:
  "fst (router_app_js sample_platform (sample_config None)
          (sample_world (Responded 500 (Some ''application/json'') body_failure) (Rejected ''ENOTFOUND''))
          (PostApi ''getStudents'' (Some (JObj []))))
     = Json 500 (JObj [(''success'', JBool False)]) \<and>
   fst (router_part_000 sample_platform (sample_config None)
          (sample_world (Responded 503 None ''not json'') (Rejected ''ENOTFOUND''))
          (PostApi ''anything'' (Some (JObj []))))
     = Json 500 (failure ''GAS returned non-JSON response for action anything. Status: 503'') \<and>
   paired (failure ''GAS returned non-JSON response for action anything. Status: 503'')"
proof -
  let ?W = "sample_world (Responded 500 (Some ''application/json'') body_failure) (Rejected ''ENOTFOUND'')"
  let ?V = "sample_world (Responded 503 None ''not json'') (Rejected ''ENOTFOUND'')"
  have a: "router_app_js = router_app_js \<or> router_app_js = router_part_000" by simp
  have b: "router_part_000 = router_app_js \<or> router_part_000 = router_part_000" by simp
  have p: "posted_to_gas (PostApi ''getStudents'' (Some (JObj []))) =
             Some (JObj [(''action'', JStr ''getStudents'')]) \<and>
           gas ?W (JObj [(''action'', JStr ''getStudents'')]) =
             Responded 500 (Some ''application/json'') body_failure \<and>
           json_parse sample_platform body_failure = Some (JObj [(''success'', JBool False)])"
    by (simp add: spread_action_def sample_defs)
  have q: "\<not> ok 500 \<and> truthy (JObj [(''success'', JBool False)])"
    by (simp add: ok_def)
  have r: "status_or_502 500 = 500" by (simp add: status_or_502_def)
  have built: "fst (router_part_000 sample_platform (sample_config None) ?V
                 (PostApi ''anything'' (Some (JObj []))))
           = Json 500 (failure ''GAS returned non-JSON response for action anything. Status: 503'')"
    by (simp add: router_part_000_def api_action_part_def sample_defs Let_def show_nat.simps)
  from p q r
    C5_router_envelopes_pair_error [OF a, where P = sample_platform and C = "sample_config None" and W = ?W
        and req = "PostApi ''getStudents'' (Some (JObj []))"
        and sent = "JObj [(''action'', JStr ''getStudents'')]" and st = 500
        and ct = "Some ''application/json''" and raw = body_failure
        and result = "JObj [(''success'', JBool False)]"]
  have fwd: "fst (router_app_js sample_platform (sample_config None) ?W
                 (PostApi ''getStudents'' (Some (JObj []))))
           = Json 500 (JObj [(''success'', JBool False)])"
    by simp
  from built
    C5_router_envelopes_pair_error [OF b, where P = sample_platform and C = "sample_config None" and W = ?V
        and req = "PostApi ''anything'' (Some (JObj []))" and status = 500
        and v = "failure ''GAS returned non-JSON response for action anything. Status: 503''"]
  have "paired (failure ''GAS returned non-JSON response for action anything. Status: 503'')"
    by simp
  with fwd built show ?thesis by simp
qed

text \<open>
  The claim as it was worded fails where the script host answers 500 with the body
  \<^verbatim>\<open>{"success":false}\<close>: app.js forwards it, and it has no \<^verbatim>\<open>error\<close>.
\<close>

theorem C5_forwarded_upstream_body_counterexample:
  "fst (router_app_js sample_platform (sample_config None)
          (sample_world (Responded 500 (Some ''application/json'') body_failure) (Rejected ''ENOTFOUND''))
          (PostApi ''getStudents'' (Some (JObj []))))
     = Json 500 (JObj [(''success'', JBool False)]) \<and>
   read_prop (JObj [(''success'', JBool False)]) ''success'' = Some (JBool False) \<and>
   read_prop (JObj [(''success'', JBool False)]) ''error'' = None"
  by (simp add: router_app_js_def api_action_app_def sample_defs Let_def ok_def status_or_502_def)

text \<open>
  C6. part_000 answers every request as app.js does, but for two routes: it has no
  \<^verbatim>\<open>/upload-image\<close> and answers 404 there, and on \<^verbatim>\<open>/api/:action\<close> its answer is
  that of app.js after the media resolution step.
\<close>

theorem C6_part_000_is_app_js_with_media_step:
  "fst (router_part_000 P C W req) =
     (case req of
        PostUploadImage body \<Rightarrow> Text 404 ''Resource not found on proxy.''
      | PostApi action body \<Rightarrow> media_step P W (fst (router_app_js P C W req))
      | _ \<Rightarrow> fst (router_app_js P C W req))"
  by (cases req) (simp_all add: router_part_000_def router_app_js_def not_found_def api_part_media_step)

theorem C6_part_000_is_app_js_with_media_step_witness:
  "fst (router_app_js sample_platform (sample_config None)
          (sample_world (Responded 200 (Some ''application/json'') body_photo)
                        (Responded 200 (Some ''image/png'') [1, 2, 3]))
          (PostApi ''getStudent'' (Some (JObj []))))
     = Json 200 (JObj [(''success'', JBool True),
                       (''data'', JObj [(''PhotoURL'', JStr ''https://valid.img/x.png'')])]) \<and>
   fst (router_part_000 sample_platform (sample_config None)
          (sample_world (Responded 200 (Some ''application/json'') body_photo)
                        (Responded 200 (Some ''image/png'') [1, 2, 3]))
          (PostApi ''getStudent'' (Some (JObj []))))
     = Json 200 (JObj [(''success'', JBool True),
                       (''data'', JObj [(''PhotoURL'', JStr ''data:image/png;base64,AQID'')])])"
proof -
  have app: "fst (router_app_js sample_platform (sample_config None)
          (sample_world (Responded 200 (Some ''application/json'') body_photo)
                        (Responded 200 (Some ''image/png'') [1, 2, 3]))
          (PostApi ''getStudent'' (Some (JObj []))))
     = Json 200 (JObj [(''success'', JBool True),
                       (''data'', JObj [(''PhotoURL'', JStr ''https://valid.img/x.png'')])])"
    by (simp add: router_app_js_def api_action_app_def sample_defs Let_def ok_def)
  have step: "resolve_data sample_platform
          (sample_world (Responded 200 (Some ''application/json'') body_photo)
                        (Responded 200 (Some ''image/png'') [1, 2, 3]))
          (JObj [(''success'', JBool True),
                 (''data'', JObj [(''PhotoURL'', JStr ''https://valid.img/x.png'')])])
     = JObj [(''success'', JBool True),
             (''data'', JObj [(''PhotoURL'', JStr ''data:image/png;base64,AQID'')])]"
    by (simp add: resolve_data_def walk_obj entry_value_string is_http_def ok_def data_uri_def
          sample_platform_def sample_world_def)
  from C6_part_000_is_app_js_with_media_step
         [of sample_platform "sample_config None"
             "sample_world (Responded 200 (Some ''application/json'') body_photo)
                           (Responded 200 (Some ''image/png'') [1, 2, 3])"
             "PostApi ''getStudent'' (Some (JObj []))"]
  show ?thesis by (simp add: app step)
qed

text \<open>
  The claim as it was worded fails on a POST to \<^verbatim>\<open>/upload-image\<close>: app.js answers
  it (here 500, the token is not set), part_000 answers 404.
\<close>

theorem C6_upload_route_counterexample:
  "fst (router_app_js sample_platform (sample_config None)
          (sample_world (Rejected ''ENOTFOUND'') (Rejected ''ENOTFOUND''))
          (PostUploadImage (Some (JObj [(''image'', JStr ''AQID''), (''fileName'', JStr ''a.png'')]))))
     = Json 500 (JObj [(''success'', JBool False),
                       (''error'', JStr ''GitHub integration is not configured on the server.'')]) \<and>
   fst (router_part_000 sample_platform (sample_config None)
          (sample_world (Rejected ''ENOTFOUND'') (Rejected ''ENOTFOUND''))
          (PostUploadImage (Some (JObj [(''image'', JStr ''AQID''), (''fileName'', JStr ''a.png'')]))))
     = Text 404 ''Resource not found on proxy.''"
  by (simp add: router_app_js_def router_part_000_def upload_image_def not_found_def failure_def
        sample_config_def)

text \<open>
  C7. When the script host answers \<^verbatim>\<open>/api/:action\<close> with a body that is not JSON,
  whatever the status, both routers answer 500 with an error that says so and
  carries the upstream status, and print a snippet of the body: its first 500
  characters at most.
\<close>

theorem C7_non_json_upstream_answers_500:
  assumes "action \<noteq> []"
    and "gas W (spread_action action (payload_or_empty body)) = Responded status ct text"
    and "json_parse P text = None"
  shows "\<exists>snippet.
           api_action_part P C W action body =
             (Json 500 (JObj [(''success'', JBool False),
                              (''error'', JStr (''GAS returned non-JSON response for action '' @ action @
                                               ''. Status: '' @ show_nat status))]),
              [Outbound ''POST'' (GAS_URL C),
               ConsoleError [S (''Failed to parse GAS response for action '' @ dquote @ action @ dquote @ '':''),
                             S snippet]]) \<and>
           api_action_app P C W action body = api_action_part P C W action body \<and>
           prefix snippet text \<and> length snippet \<le> 500"
  using assms
  by (intro exI [of _ "take 500 text"])
     (simp add: api_action_part_def api_action_app_def Let_def failure_def take_is_prefix)

theorem C7_non_json_upstream_answers_500_witness:
  "fst (api_action_part sample_platform (sample_config None)
          (sample_world (Responded 503 None ''not json'') (Rejected ''ENOTFOUND''))
          ''anything'' (Some (JObj [])))
     = Json 500 (JObj [(''success'', JBool False),
                       (''error'', JStr ''GAS returned non-JSON response for action anything. Status: 503'')]) \<and>
   api_action_app sample_platform (sample_config None)
          (sample_world (Responded 503 None ''not json'') (Rejected ''ENOTFOUND''))
          ''anything'' (Some (JObj []))
     = api_action_part sample_platform (sample_config None)
          (sample_world (Responded 503 None ''not json'') (Rejected ''ENOTFOUND''))
          ''anything'' (Some (JObj []))"
proof -
  have a: "''anything'' \<noteq> []" by simp
  have b: "gas (sample_world (Responded 503 None ''not json'') (Rejected ''ENOTFOUND''))
             (spread_action ''anything'' (payload_or_empty (Some (JObj []))))
           = Responded 503 None ''not json''"
    by (simp add: sample_world_def)
  have c: "json_parse sample_platform ''not json'' = None"
    by (simp add: sample_defs)
  from C7_non_json_upstream_answers_500 [OF a b c, of "sample_config None"]
  show ?thesis by (auto simp: show_nat.simps)
qed

text \<open>
  C8. With the access token, the owner or the repository unset, app.js answers
  \<^verbatim>\<open>/upload-image\<close> with 500 and a configuration error, whatever the body, and sends
  no request.
\<close>

theorem C8_upload_without_configuration:
  assumes "unset (GITHUB_API_TOKEN C) \<or> unset (GITHUB_OWNER C) \<or> unset (GITHUB_REPO C)"
  shows "router_app_js P C W (PostUploadImage body) =
           (Json 500 (JObj [(''success'', JBool False),
                            (''error'', JStr ''GitHub integration is not configured on the server.'')]), [])"
  using assms by (auto simp: router_app_js_def upload_image_def failure_def)

theorem C8_upload_without_configuration_witness:
  "router_app_js sample_platform (sample_config None)
     (sample_world (Rejected ''ENOTFOUND'') (Rejected ''ENOTFOUND''))
     (PostUploadImage (Some (JObj [(''image'', JStr ''AQID''), (''fileName'', JStr ''a.png'')])))
   = (Json 500 (JObj [(''success'', JBool False),
                      (''error'', JStr ''GitHub integration is not configured on the server.'')]), [])"
proof -
  have "unset (GITHUB_API_TOKEN (sample_config None)) \<or> unset (GITHUB_OWNER (sample_config None)) \<or>
        unset (GITHUB_REPO (sample_config None))"
    by (simp add: sample_config_def)
  then show ?thesis by (rule C8_upload_without_configuration)
qed

text \<open>
  C9. For a non-empty file name the upload is a PUT to the hosting API path that
  ends in \<^verbatim>\<open>/contents/images/\<close>, the timestamp in milliseconds, \<^verbatim>\<open>-\<close>, and the
  name with every character that is not one of the letters \<^verbatim>\<open>a\<close> to \<^verbatim>\<open>z\<close> and
  \<^verbatim>\<open>A\<close> to \<^verbatim>\<open>Z\<close>, the digits, \<^verbatim>\<open>.\<close> and \<^verbatim>\<open>-\<close> replaced by \<^verbatim>\<open>_\<close>; the sanitized
  name is as long as the name and has only those characters and \<^verbatim>\<open>_\<close>.
\<close>

theorem C9_upload_path_is_sanitized:
  assumes "GITHUB_API_TOKEN C = Some token" and "token \<noteq> []"
    and "GITHUB_OWNER C = Some owner" and "owner \<noteq> []"
    and "GITHUB_REPO C = Some repo" and "repo \<noteq> []"
    and "read_prop b ''image'' = Some img" and "truthy img"
    and "read_prop b ''fileName'' = Some (JStr name)" and "name \<noteq> []"
  shows "(\<exists>rest. snd (upload_image P C W (Some b)) =
            Outbound ''PUT''
              (''https://api.github.com/repos/'' @ owner @ ''/'' @ repo @ ''/contents/images/'' @
               show_int (now W) @ ''-'' @
               map (\<lambda>c. if c \<in> set ''abcdefghijklmnopqrstuvwxyzABCDEFGHIJKLMNOPQRSTUVWXYZ0123456789.-''
                         then c else CHR ''_'') name) # rest) \<and>
         filePath (now W) name =
           ''images/'' @ show_int (now W) @ ''-'' @
           map (\<lambda>c. if c \<in> set ''abcdefghijklmnopqrstuvwxyzABCDEFGHIJKLMNOPQRSTUVWXYZ0123456789.-''
                     then c else CHR ''_'') name \<and>
         sanitizedFileName (now W) name = show_int (now W) @ ''-'' @ sanitize name \<and>
         length (sanitize name) = length name \<and>
         (\<forall>c\<in>set (sanitize name).
            c \<in> set ''abcdefghijklmnopqrstuvwxyzABCDEFGHIJKLMNOPQRSTUVWXYZ0123456789.-_'')"
proof -
  have "\<exists>rest. snd (upload_image P C W (Some b)) =
           Outbound ''PUT'' (GITHUB_API_URL C (now W) name) # rest"
    using assms by (intro upload_calls_github) simp_all
  then have "\<exists>rest. snd (upload_image P C W (Some b)) =
            Outbound ''PUT''
              (''https://api.github.com/repos/'' @ owner @ ''/'' @ repo @ ''/contents/images/'' @
               show_int (now W) @ ''-'' @
               map (\<lambda>c. if c \<in> set ''abcdefghijklmnopqrstuvwxyzABCDEFGHIJKLMNOPQRSTUVWXYZ0123456789.-''
                         then c else CHR ''_'') name) # rest"
    using assms(3,5)
    by (simp add: GITHUB_API_URL_def filePath_def sanitizedFileName_def sanitize_class)
  moreover have "filePath (now W) name =
           ''images/'' @ show_int (now W) @ ''-'' @
           map (\<lambda>c. if c \<in> set ''abcdefghijklmnopqrstuvwxyzABCDEFGHIJKLMNOPQRSTUVWXYZ0123456789.-''
                     then c else CHR ''_'') name"
    by (simp add: filePath_def sanitizedFileName_def sanitize_class)
  moreover have "sanitizedFileName (now W) name = show_int (now W) @ ''-'' @ sanitize name"
    by (simp add: sanitizedFileName_def)
  moreover have "length (sanitize name) = length name"
    by (simp add: sanitize_def)
  moreover have "\<forall>c\<in>set (sanitize name).
            c \<in> set ''abcdefghijklmnopqrstuvwxyzABCDEFGHIJKLMNOPQRSTUVWXYZ0123456789.-_''"
  proof
    fix c assume "c \<in> set (sanitize name)"
    then have "kept c \<or> c = CHR ''_''" by (rule sanitize_chars)
    then show "c \<in> set ''abcdefghijklmnopqrstuvwxyzABCDEFGHIJKLMNOPQRSTUVWXYZ0123456789.-_''"
      unfolding kept_iff_class by auto
  qed
  ultimately show ?thesis by blast
qed

theorem C9_upload_path_is_sanitized_witness:
  "(\<exists>rest. snd (upload_image sample_platform (sample_config (Some ''ghp_token''))
                  (sample_world (Rejected ''ENOTFOUND'') (Rejected ''ENOTFOUND''))
                  (Some (JObj [(''image'', JStr ''AQID''), (''fileName'', JStr ''my photo#1.png'')])))
      = Outbound ''PUT''
          ''https://api.github.com/repos/school/assets/contents/images/1700000000000-my_photo_1.png'' # rest) \<and>
   filePath 1700000000000 ''my photo#1.png'' = ''images/1700000000000-my_photo_1.png''"
proof -
  let ?C = "sample_config (Some ''ghp_token'')"
  let ?W = "sample_world (Rejected ''ENOTFOUND'') (Rejected ''ENOTFOUND'')"
  let ?b = "JObj [(''image'', JStr ''AQID''), (''fileName'', JStr ''my photo#1.png'')]"
  have c: "GITHUB_API_TOKEN ?C = Some ''ghp_token''" "''ghp_token'' \<noteq> []"
    "GITHUB_OWNER ?C = Some ''school''" "''school'' \<noteq> []"
    "GITHUB_REPO ?C = Some ''assets''" "''assets'' \<noteq> []"
    by (simp_all add: sample_config_def)
  have b: "read_prop ?b ''image'' = Some (JStr ''AQID'')" "truthy (JStr ''AQID'')"
    "read_prop ?b ''fileName'' = Some (JStr ''my photo#1.png'')" "''my photo#1.png'' \<noteq> []"
    by simp_all
  have t: "show_int (now ?W) = ''1700000000000''"
    by (simp add: sample_world_def show_int_def show_nat.simps)
  have m: "map (\<lambda>c. if c \<in> set ''abcdefghijklmnopqrstuvwxyzABCDEFGHIJKLMNOPQRSTUVWXYZ0123456789.-''
                     then c else CHR ''_'') ''my photo#1.png'' = ''my_photo_1.png''"
    by simp
  have n: "now ?W = 1700000000000" by (simp add: sample_world_def)
  from C9_upload_path_is_sanitized [OF c b, where W = ?W and P = sample_platform]
  obtain rest where
    "snd (upload_image sample_platform ?C ?W (Some ?b)) =
       Outbound ''PUT''
         (''https://api.github.com/repos/'' @ ''school'' @ ''/'' @ ''assets'' @ ''/contents/images/'' @
          show_int (now ?W) @ ''-'' @
          map (\<lambda>c. if c \<in> set ''abcdefghijklmnopqrstuvwxyzABCDEFGHIJKLMNOPQRSTUVWXYZ0123456789.-''
                    then c else CHR ''_'') ''my photo#1.png'') # rest"
    and "filePath (now ?W) ''my photo#1.png'' =
           ''images/'' @ show_int (now ?W) @ ''-'' @
           map (\<lambda>c. if c \<in> set ''abcdefghijklmnopqrstuvwxyzABCDEFGHIJKLMNOPQRSTUVWXYZ0123456789.-''
                     then c else CHR ''_'') ''my photo#1.png''"
    by blast
  then have "snd (upload_image sample_platform ?C ?W (Some ?b)) =
       Outbound ''PUT''
         ''https://api.github.com/repos/school/assets/contents/images/1700000000000-my_photo_1.png'' # rest"
    and "filePath 1700000000000 ''my photo#1.png'' = ''images/1700000000000-my_photo_1.png''"
    unfolding t m by (simp_all add: n [symmetric] t)
  then show ?thesis by blast
qed

text \<open>
  C10. When the script host answers \<^verbatim>\<open>/api/:action\<close> with a 2xx status and a JSON
  body whose \<^verbatim>\<open>success\<close> or \<^verbatim>\<open>data\<close> is falsy, part_000 answers 200 with that body as
  it is and sends no request but the one to the script host: the resolver does not
  run.
\<close>

theorem C10_falsy_success_or_data_skips_resolver:
  assumes "action \<noteq> []"
    and "gas W (spread_action action (payload_or_empty body)) = Responded status ct text"
    and "ok status" and "json_parse P text = Some result"
    and "(\<exists>s. access P result ''success'' = Inr s \<and> \<not> truthy_opt s) \<or>
         (\<exists>d. access P result ''data'' = Inr d \<and> \<not> truthy_opt d)"
  shows "api_action_part P C W action body = (Json 200 result, [Outbound ''POST'' (GAS_URL C)])"
proof -
  from assms(5) have nn: "result \<noteq> JNull" by auto
  with assms show ?thesis
    by (auto simp: api_action_part_def Let_def access_Inr split: option.splits)
qed

theorem C10_falsy_success_or_data_skips_resolver_witness:
  "api_action_part sample_platform (sample_config None)
     (sample_world (Responded 200 (Some ''application/json'') body_zero)
                   (Responded 200 (Some ''image/png'') [1, 2, 3]))
     ''countStudents'' (Some (JObj []))
   = (Json 200 (JObj [(''success'', JBool True), (''data'', JNum 0)]),
      [Outbound ''POST'' ''https://script.example/exec''])"
proof -
  have a: "''countStudents'' \<noteq> []" by simp
  have b: "gas (sample_world (Responded 200 (Some ''application/json'') body_zero)
                   (Responded 200 (Some ''image/png'') [1, 2, 3]))
             (spread_action ''countStudents'' (payload_or_empty (Some (JObj []))))
           = Responded 200 (Some ''application/json'') body_zero"
    by (simp add: sample_world_def)
  have c: "ok 200" by (simp add: ok_def)
  have d: "json_parse sample_platform body_zero = Some (JObj [(''success'', JBool True), (''data'', JNum 0)])"
    by (simp add: sample_defs)
  have e: "(\<exists>s. access sample_platform (JObj [(''success'', JBool True), (''data'', JNum 0)]) ''success'' = Inr s \<and>
               \<not> truthy_opt s) \<or>
           (\<exists>d. access sample_platform (JObj [(''success'', JBool True), (''data'', JNum 0)]) ''data'' = Inr d \<and>
               \<not> truthy_opt d)"
    by simp
  from C10_falsy_success_or_data_skips_resolver [OF a b c d e, of "sample_config None"]
  show ?thesis by (simp add: sample_config_def)
qed

end
